theory Spec2Isabelle
  imports Complex_Main
begin

section \<open>JavaScript values and errors\<close>

text \<open>
  The values that reach the certificate code are fields of JSON rows and of JSON request
  bodies: a field is absent (\<open>undefined\<close>), \<open>null\<close>, a boolean, a number or a
  string.
  Numbers are modelled as integers; strings are lists of characters, one element per
  code unit, so that \<open>.length\<close> is \<^const>\<open>length\<close>.
\<close>

datatype jsval = Undefined | Null | Bool bool | Num int | Str string

text \<open>A thrown value: the error class and its message.\<close>

datatype error = Error string | TypeError string | RangeError string

fun message :: "error \<Rightarrow> string" where
  "message (Error m) = m"
| "message (TypeError m) = m"
| "message (RangeError m) = m"

text \<open>
  \<open>!v\<close> is \<open>\<not> truthy v\<close>: \<open>undefined\<close>, \<open>null\<close>, \<open>false\<close>, \<open>0\<close> and the empty
  string are falsy.
\<close>

fun truthy :: "jsval \<Rightarrow> bool" where
  "truthy Undefined = False"
| "truthy Null = False"
| "truthy (Bool b) = b"
| "truthy (Num n) = (n \<noteq> 0)"
| "truthy (Str s) = (s \<noteq> [])"

subsection \<open>Number to string\<close>

definition digit_char :: "nat \<Rightarrow> char" where
  "digit_char d = ''0123456789'' ! d"

fun show_nat :: "nat \<Rightarrow> string" where
  "show_nat n = (if n < 10 then [digit_char n] else show_nat (n div 10) @ [digit_char (n mod 10)])"

declare show_nat.simps [simp del]

definition show_int :: "int \<Rightarrow> string" where
  "show_int i = (if i < 0 then CHR ''-'' # show_nat (nat (- i)) else show_nat (nat i))"

text \<open>
  A JavaScript number that is either an integer or \<open>NaN\<close> is an \<open>int option\<close>,
  \<open>None\<close> standing for \<open>NaN\<close>.
\<close>

definition show_number :: "int option \<Rightarrow> string" where
  "show_number n = (case n of None \<Rightarrow> ''NaN'' | Some i \<Rightarrow> show_int i)"

section \<open>The Date object\<close>

text \<open>
  Time values are milliseconds since the epoch, in UTC. The day and year arithmetic is
  that of the language standard.
\<close>

definition msPerDay :: int where
  "msPerDay = 86400000"

definition Day :: "int \<Rightarrow> int" where
  "Day t = t div msPerDay"

definition DaysInYear :: "int \<Rightarrow> int" where
  "DaysInYear y =
     (if y mod 4 \<noteq> 0 then 365
      else if y mod 100 \<noteq> 0 then 366
      else if y mod 400 \<noteq> 0 then 365
      else 366)"

definition DayFromYear :: "int \<Rightarrow> int" where
  "DayFromYear y = 365 * (y - 1970) + (y - 1969) div 4 - (y - 1901) div 100 + (y - 1601) div 400"

text \<open>
  A year has the number of days that \<^const>\<open>DaysInYear\<close> gives it, so the first days of
  the years increase; the search for the year of a day rests on that.
\<close>

lemma div_step:
  fixes y :: int
  assumes "0 < n"
  shows "(y + 1) div n = (if (y + 1) mod n = 0 then y div n + 1 else y div n)"
proof (cases "(y + 1) mod n = 0")
  case True
  then obtain q where q: "y + 1 = n * q" by auto
  then have "y = n * (q - 1) + (n - 1)" by (simp add: algebra_simps)
  then have "y div n = q - 1" using assms
    by (metis add.commute diff_add_cancel div_mult_self2 less_le zdiv_eq_0_iff zero_less_diff add_cancel_right_left
        div_pos_pos_trivial diff_less_eq less_add_same_cancel1 zero_less_one order_less_imp_not_eq2 pos_imp_zdiv_nonneg_iff zle_diff1_eq)
  with q True assms show ?thesis by simp
next
  case False
  have "y + 1 = n * ((y + 1) div n) + (y + 1) mod n" by simp
  moreover have "0 < (y + 1) mod n" using False assms
    by (metis less_le pos_mod_sign)
  moreover have "(y + 1) mod n < n" using assms by simp
  ultimately have "y = n * ((y + 1) div n) + ((y + 1) mod n - 1)" "0 \<le> (y + 1) mod n - 1" "(y + 1) mod n - 1 < n"
    by linarith+
  then have "y div n = (y + 1) div n"
    by (metis div_mult_self4 div_pos_pos_trivial add.commute add.right_neutral assms less_le mult.commute)
  with False show ?thesis by simp
qed

lemma mod_shift:
  fixes y :: int
  shows "(y - 1968) mod 4 = 0 \<longleftrightarrow> y mod 4 = 0"
    and "(y - 1900) mod 100 = 0 \<longleftrightarrow> y mod 100 = 0"
    and "(y - 1600) mod 400 = 0 \<longleftrightarrow> y mod 400 = 0"
    and "y mod 100 = 0 \<Longrightarrow> y mod 4 = 0"
    and "y mod 400 = 0 \<Longrightarrow> y mod 100 = 0"
proof -
  show "(y - 1968) mod 4 = 0 \<longleftrightarrow> y mod 4 = 0"
    using mod_mult_self1 [of y "- 492" 4] by simp
  show "(y - 1900) mod 100 = 0 \<longleftrightarrow> y mod 100 = 0"
    using mod_mult_self1 [of y "- 19" 100] by simp
  show "(y - 1600) mod 400 = 0 \<longleftrightarrow> y mod 400 = 0"
    using mod_mult_self1 [of y "- 4" 400] by simp
  show "y mod 100 = 0 \<Longrightarrow> y mod 4 = 0"
    using mod_mod_cancel [of 4 100 y] by simp
  show "y mod 400 = 0 \<Longrightarrow> y mod 100 = 0"
    using mod_mod_cancel [of 100 400 y] by simp
qed

lemma DayFromYear_succ: "DayFromYear (y + 1) = DayFromYear y + DaysInYear y"
proof -
  have a: "(y + 1 - 1969) div 4 = (if y mod 4 = 0 then (y - 1969) div 4 + 1 else (y - 1969) div 4)"
    using div_step [of 4 "y - 1969"] mod_shift(1) [of y] by (simp add: algebra_simps)
  have b: "(y + 1 - 1901) div 100 = (if y mod 100 = 0 then (y - 1901) div 100 + 1 else (y - 1901) div 100)"
    using div_step [of 100 "y - 1901"] mod_shift(2) [of y] by (simp add: algebra_simps)
  have c: "(y + 1 - 1601) div 400 = (if y mod 400 = 0 then (y - 1601) div 400 + 1 else (y - 1601) div 400)"
    using div_step [of 400 "y - 1601"] mod_shift(3) [of y] by (simp add: algebra_simps)
  show ?thesis
    unfolding DayFromYear_def DaysInYear_def a b c
    using mod_shift(4,5) [of y] by (simp add: algebra_simps)
qed

lemma DaysInYear_bounds: "365 \<le> DaysInYear y" "DaysInYear y \<le> 366"
  by (simp_all add: DaysInYear_def)

lemma DayFromYear_step: "DayFromYear y < DayFromYear (y + 1)"
  using DaysInYear_bounds(1) [of y] by (simp add: DayFromYear_succ)

text \<open>
  \<open>YearFromTime t\<close> is the largest year whose first day is not after \<open>t\<close>: the search
  goes upwards from a year that is not after it.
\<close>

function year_search :: "int \<Rightarrow> int \<Rightarrow> int" where
  "year_search d y = (if DayFromYear (y + 1) \<le> d then year_search d (y + 1) else y)"
  by pat_completeness auto
termination
proof (relation "measure (\<lambda>(d, y). nat (d - DayFromYear y))")
  show "wf (measure (\<lambda>(d, y). nat (d - DayFromYear y)))" by simp
next
  fix d y :: int
  assume "DayFromYear (y + 1) \<le> d"
  with DayFromYear_step [of y]
  show "((d, y + 1), (d, y)) \<in> measure (\<lambda>(d, y). nat (d - DayFromYear y))"
    by simp
qed

declare year_search.simps [simp del]

definition YearFromTime :: "int \<Rightarrow> int" where
  "YearFromTime t =
     (let d = Day t
      in year_search d (1970 + (if 0 \<le> d then d div 366 else d div 365)))"

definition InLeapYear :: "int \<Rightarrow> int" where
  "InLeapYear t = (if DaysInYear (YearFromTime t) = 366 then 1 else 0)"

definition DayWithinYear :: "int \<Rightarrow> int" where
  "DayWithinYear t = Day t - DayFromYear (YearFromTime t)"

definition MonthFromTime :: "int \<Rightarrow> int" where
  "MonthFromTime t =
     (let d = DayWithinYear t; leap = InLeapYear t
      in if d < 31 then 0
         else if d < 59 + leap then 1
         else if d < 90 + leap then 2
         else if d < 120 + leap then 3
         else if d < 151 + leap then 4
         else if d < 181 + leap then 5
         else if d < 212 + leap then 6
         else if d < 243 + leap then 7
         else if d < 273 + leap then 8
         else if d < 304 + leap then 9
         else if d < 334 + leap then 10
         else 11)"

definition DateFromTime :: "int \<Rightarrow> int" where
  "DateFromTime t =
     (let d = DayWithinYear t; leap = InLeapYear t; m = MonthFromTime t
      in if m = 0 then d + 1
         else if m = 1 then d - 30
         else if m = 2 then d - 58 - leap
         else if m = 3 then d - 89 - leap
         else if m = 4 then d - 119 - leap
         else if m = 5 then d - 150 - leap
         else if m = 6 then d - 180 - leap
         else if m = 7 then d - 211 - leap
         else if m = 8 then d - 242 - leap
         else if m = 9 then d - 272 - leap
         else if m = 10 then d - 303 - leap
         else d - 333 - leap)"

text \<open>Days before the first of month \<open>m\<close> (0 to 11) in a year of \<open>n\<close> days.\<close>

definition DaysBeforeMonth :: "int \<Rightarrow> int \<Rightarrow> int" where
  "DaysBeforeMonth n m =
     (let leap = (if n = 366 then 1 else 0)
      in if m = 0 then 0
         else if m = 1 then 31
         else if m = 2 then 59 + leap
         else if m = 3 then 90 + leap
         else if m = 4 then 120 + leap
         else if m = 5 then 151 + leap
         else if m = 6 then 181 + leap
         else if m = 7 then 212 + leap
         else if m = 8 then 243 + leap
         else if m = 9 then 273 + leap
         else if m = 10 then 304 + leap
         else 334 + leap)"

definition DaysInMonth :: "int \<Rightarrow> int \<Rightarrow> int" where
  "DaysInMonth y m =
     (if m = 11 then 31 else DaysBeforeMonth (DaysInYear y) (m + 1) - DaysBeforeMonth (DaysInYear y) m)"

definition MakeDay :: "int \<Rightarrow> int \<Rightarrow> int \<Rightarrow> int" where
  "MakeDay year month date =
     (let ym = year + month div 12; mn = month mod 12
      in DayFromYear ym + DaysBeforeMonth (DaysInYear ym) mn + date - 1)"

definition MakeDate :: "int \<Rightarrow> int \<Rightarrow> int" where
  "MakeDate day time = day * msPerDay + time"

definition TimeClip :: "int \<Rightarrow> int option" where
  "TimeClip t = (if \<bar>t\<bar> > 8640000000000000 then None else Some t)"

subsection \<open>The environment of a run\<close>

text \<open>
  What the standard leaves to the implementation, and what is not reimplemented here, is a
  parameter of the model: \<open>localTZA t isUTC\<close> is the offset of local time from UTC, in
  milliseconds, at the time value \<open>t\<close>, read as UTC or as local time (the time zone of the
  process); \<open>impl_parse\<close> is what the date parser makes of a string that is not a calendar
  date of the form \<open>YYYY-MM-DD\<close> (\<open>None\<close> is \<open>NaN\<close>); and \<open>exponential\<close> is the string
  of a number whose magnitude is \<open>10\<^sup>2\<^sup>1\<close> or more, which is printed with an
  exponent (\<open>1e+21\<close>).
\<close>

record runtime_env =
  localTZA :: "int \<Rightarrow> bool \<Rightarrow> int"
  impl_parse :: "string \<Rightarrow> int option"
  exponential :: "int \<Rightarrow> string"

text \<open>
  String conversion, as inside a template literal: an integer below \<open>10\<^sup>2\<^sup>1\<close> in
  magnitude is printed with all its digits.
\<close>

fun ToString :: "('a runtime_env_scheme) \<Rightarrow> jsval \<Rightarrow> string" where
  "ToString env Undefined = ''undefined''"
| "ToString env Null = ''null''"
| "ToString env (Bool b) = (if b then ''true'' else ''false'')"
| "ToString env (Num n) =
     (if \<bar>n\<bar> < 1000000000000000000000 then show_int n else exponential env n)"
| "ToString env (Str s) = s"

definition is_digit :: "char \<Rightarrow> bool" where
  "is_digit c = (c \<in> set ''0123456789'')"

definition digit_value :: "char \<Rightarrow> int" where
  "digit_value c = int (of_char c) - 48"

definition digits_value :: "string \<Rightarrow> int" where
  "digits_value cs = foldl (\<lambda>acc c. 10 * acc + digit_value c) 0 cs"

text \<open>
  The date-only form of the standard's date-time string format: four digits, two digits
  and two digits, separated by hyphens. It denotes midnight UTC of that day.
\<close>

definition parse_iso_date :: "string \<Rightarrow> (int \<times> int \<times> int) option" where
  "parse_iso_date s =
     (if length s = 10 \<and> s ! 4 = CHR ''-'' \<and> s ! 7 = CHR ''-''
         \<and> list_all is_digit (take 4 s)
         \<and> list_all is_digit (take 2 (drop 5 s))
         \<and> list_all is_digit (drop 8 s)
      then Some (digits_value (take 4 s), digits_value (take 2 (drop 5 s)), digits_value (drop 8 s))
      else None)"

definition Date_parse :: "('a runtime_env_scheme) \<Rightarrow> string \<Rightarrow> int option" where
  "Date_parse env s =
     (case parse_iso_date s of
        Some (y, m, d) \<Rightarrow>
          if 1 \<le> m \<and> m \<le> 12 \<and> 1 \<le> d \<and> d \<le> DaysInMonth y (m - 1)
          then Some (MakeDate (MakeDay y (m - 1) d) 0)
          else impl_parse env s
      | None \<Rightarrow> impl_parse env s)"

text \<open>
  \<open>new Date(value)\<close>: a string is parsed, anything else is converted to a number
  (\<open>undefined\<close> to \<open>NaN\<close>, \<open>null\<close> and \<open>false\<close> to \<open>0\<close>, \<open>true\<close> to \<open>1\<close>). The result is the time value of the
  Date object, \<open>None\<close> for an invalid date.
\<close>

fun new_Date :: "('a runtime_env_scheme) \<Rightarrow> jsval \<Rightarrow> int option" where
  "new_Date env Undefined = None"
| "new_Date env Null = TimeClip 0"
| "new_Date env (Bool b) = TimeClip (if b then 1 else 0)"
| "new_Date env (Num n) = TimeClip n"
| "new_Date env (Str s) = (case Date_parse env s of None \<Rightarrow> None | Some t \<Rightarrow> TimeClip t)"

definition LocalTime :: "('a runtime_env_scheme) \<Rightarrow> int \<Rightarrow> int" where
  "LocalTime env t = t + localTZA env t True"

definition getDate :: "('a runtime_env_scheme) \<Rightarrow> int option \<Rightarrow> int option" where
  "getDate env tv = (case tv of None \<Rightarrow> None | Some t \<Rightarrow> Some (DateFromTime (LocalTime env t)))"

definition getMonth :: "('a runtime_env_scheme) \<Rightarrow> int option \<Rightarrow> int option" where
  "getMonth env tv = (case tv of None \<Rightarrow> None | Some t \<Rightarrow> Some (MonthFromTime (LocalTime env t)))"

definition getFullYear :: "('a runtime_env_scheme) \<Rightarrow> int option \<Rightarrow> int option" where
  "getFullYear env tv = (case tv of None \<Rightarrow> None | Some t \<Rightarrow> Some (YearFromTime (LocalTime env t)))"

section \<open>The certificate generator\<close>

subsection \<open>formatDate\<close>

definition months :: "string list" where
  "months = [''January'', ''February'', ''March'', ''April'', ''May'', ''June'',
             ''July'', ''August'', ''September'', ''October'', ''November'', ''December'']"

text \<open>
  \<open>months[i]\<close>: an index that is \<open>NaN\<close> or outside the array reads \<open>undefined\<close>
  (\<open>None\<close>).
\<close>

definition months_at :: "int option \<Rightarrow> string option" where
  "months_at i =
     (case i of
        None \<Rightarrow> None
      | Some k \<Rightarrow> if 0 \<le> k \<and> k < int (length months) then Some (months ! nat k) else None)"

definition formatDate :: "('a runtime_env_scheme) \<Rightarrow> jsval \<Rightarrow> string" where
  "formatDate env dateString =
     (let date = new_Date env dateString;
          day = getDate env date;
          month = months_at (getMonth env date);
          year = getFullYear env date
      in show_number day @ '' ''
         @ (case month of None \<Rightarrow> ''undefined'' | Some m \<Rightarrow> m) @ '' ''
         @ show_number year)"

subsection \<open>Documents, images and the libraries\<close>

text \<open>
  The PDF and QR libraries are not reimplemented. A document is the list of its pages,
  each with its size and the drawing operations on it, together with the fonts and
  images embedded so far; the PNG buffer of a QR code is the text it encodes with the
  options it was made with; the bytes of a saved document are the document they
  serialise, the time written into them and their number. Coordinates are real numbers:
  the rounding of floating-point arithmetic is left out, and so is what the code writes
  to the console.
\<close>

datatype font = Helvetica | HelveticaBold

record qr_options =
  qr_type :: string
  qr_width :: nat
  qr_margin :: nat
  color_dark :: string
  color_light :: string

datatype png = QRCodePng string qr_options

fun qr_payload :: "png \<Rightarrow> string" where
  "qr_payload (QRCodePng txt opts) = txt"

fun qr_opts :: "png \<Rightarrow> qr_options" where
  "qr_opts (QRCodePng txt opts) = opts"

record text_options =
  text_x :: real
  text_y :: real
  text_size :: nat
  text_font :: font
  text_color :: "real \<times> real \<times> real"

record image_options =
  image_x :: real
  image_y :: real
  image_width :: real
  image_height :: real

datatype draw_op = DrawText string text_options | DrawImage png image_options

record page =
  page_width :: real
  page_height :: real
  content :: "draw_op list"

record pdf_doc =
  pages :: "page list"
  fonts :: "font list"
  images :: "png list"

record pdf_bytes =
  serialized :: pdf_doc
  written_at :: int
  bytes_length :: nat

text \<open>A row of a table, with \<^const>\<open>Undefined\<close> for a field it does not have.\<close>

type_synonym row = "string \<Rightarrow> jsval"

text \<open>
  A request to the data store: a single-row select with equality filters, or an update
  of columns in the rows that pass the filters. The value of a column is a JSON value or
  the bytes of a document.
\<close>

datatype colval = Val jsval | Bytes pdf_bytes

datatype query =
    Select string string "(string \<times> jsval) list"
  | Update string "(string \<times> colval) list" "(string \<times> jsval) list"

record response =
  data :: "row option"
  error :: "error option"

text \<open>
  The data store is reached through one client: \<open>supabase\<close> gives the answer to a
  request.
\<close>

record store_env = runtime_env +
  supabase :: "query \<Rightarrow> response"

text \<open>
  The environment of a render: the time zone and date parser of the process, the answers
  of the data store, the file system, and the outcome of every library call that can
  fail.
\<close>

record env = store_env +
  templatePath :: string
  readFile :: "string \<Rightarrow> error + nat list"
  PDFDocument_load :: "nat list \<Rightarrow> error + pdf_doc"
  embedFont_error :: "font \<Rightarrow> error option"
  drawText_error :: "font \<Rightarrow> string \<Rightarrow> error option"
  QRCode_error :: "string \<Rightarrow> qr_options \<Rightarrow> error option"
  embedPng_error :: "png \<Rightarrow> error option"
  save_error :: "pdf_doc \<Rightarrow> error option"
  save_time :: int
  save_length :: "pdf_doc \<Rightarrow> int \<Rightarrow> nat"

text \<open>Sequencing of steps that can throw: the first error ends the run.\<close>

definition bind_err :: "error + 'a \<Rightarrow> ('a \<Rightarrow> error + 'b) \<Rightarrow> error + 'b" where
  "bind_err r f = (case r of Inl e \<Rightarrow> Inl e | Inr v \<Rightarrow> f v)"

definition rgb :: "real \<Rightarrow> real \<Rightarrow> real \<Rightarrow> real \<times> real \<times> real" where
  "rgb r g b = (r, g, b)"

definition on_first_page :: "pdf_doc \<Rightarrow> draw_op \<Rightarrow> pdf_doc" where
  "on_first_page doc op =
     doc\<lparr>pages := (pages doc)[0 := (pages doc ! 0)\<lparr>content := content (pages doc ! 0) @ [op]\<rparr>]\<rparr>"

definition embedFont :: "env \<Rightarrow> pdf_doc \<Rightarrow> font \<Rightarrow> error + pdf_doc" where
  "embedFont env doc f =
     (case embedFont_error env f of
        Some e \<Rightarrow> Inl e
      | None \<Rightarrow> Inr (doc\<lparr>fonts := fonts doc @ [f]\<rparr>))"

definition drawText :: "env \<Rightarrow> pdf_doc \<Rightarrow> string \<Rightarrow> text_options \<Rightarrow> error + pdf_doc" where
  "drawText env doc txt opts =
     (case drawText_error env (text_font opts) txt of
        Some e \<Rightarrow> Inl e
      | None \<Rightarrow> Inr (on_first_page doc (DrawText txt opts)))"

definition embedPng :: "env \<Rightarrow> pdf_doc \<Rightarrow> png \<Rightarrow> error + pdf_doc" where
  "embedPng env doc img =
     (case embedPng_error env img of
        Some e \<Rightarrow> Inl e
      | None \<Rightarrow> Inr (doc\<lparr>images := images doc @ [img]\<rparr>))"

definition drawImage :: "pdf_doc \<Rightarrow> png \<Rightarrow> image_options \<Rightarrow> pdf_doc" where
  "drawImage doc img opts = on_first_page doc (DrawImage img opts)"

definition save :: "env \<Rightarrow> pdf_doc \<Rightarrow> error + pdf_bytes" where
  "save env doc =
     (case save_error env doc of
        Some e \<Rightarrow> Inl e
      | None \<Rightarrow>
          Inr \<lparr>serialized = doc, written_at = save_time env,
               bytes_length = save_length env doc (save_time env)\<rparr>)"

text \<open>
  \<open>QRCode.toBuffer\<close>: there is no QR code of a value that is not a string or of the
  empty string, and the library may fail on a string (one too long for a symbol).
\<close>

definition QRCode_toBuffer :: "env \<Rightarrow> jsval \<Rightarrow> qr_options \<Rightarrow> error + png" where
  "QRCode_toBuffer env v opts =
     (case v of
        Undefined \<Rightarrow> Inl (Error ''String required as first argument'')
      | Null \<Rightarrow> Inl (Error ''Invalid data'')
      | Bool b \<Rightarrow> Inl (Error ''Invalid data'')
      | Num n \<Rightarrow> Inl (Error ''Invalid data'')
      | Str s \<Rightarrow>
          if s = [] then Inl (Error ''No input text'')
          else (case QRCode_error env s opts of
                  Some e \<Rightarrow> Inl e
                | None \<Rightarrow> Inr (QRCodePng s opts)))"

subsection \<open>generateQRCode\<close>

definition generateQRCode :: "env \<Rightarrow> jsval \<Rightarrow> error + png" where
  "generateQRCode env certificateId =
     (case QRCode_toBuffer env certificateId
             \<lparr>qr_type = ''png'', qr_width = 150, qr_margin = 1,
              color_dark = ''#000000'', color_light = ''#FFFFFF''\<rparr> of
        Inr qrCodeBuffer \<Rightarrow> Inr qrCodeBuffer
      | Inl e \<Rightarrow> Inl (Error ''Failed to generate QR code''))"

subsection \<open>generateCertificate\<close>

text \<open>
  \<open>pages[0]\<close> of a document without pages is \<open>undefined\<close>, and reading its size
  throws.
\<close>

definition first_page :: "pdf_doc \<Rightarrow> error + page" where
  "first_page doc =
     (case pages doc of
        [] \<Rightarrow> Inl (TypeError ''Cannot read properties of undefined (reading getSize)'')
      | p # ps \<Rightarrow> Inr p)"

text \<open>
  The recipient name is drawn first. Reading \<open>.length\<close> of an absent or null name
  throws, and the PDF library refuses a text that is not a string.
\<close>

definition draw_name :: "env \<Rightarrow> pdf_doc \<Rightarrow> jsval \<Rightarrow> real \<Rightarrow> real \<Rightarrow> font \<Rightarrow> error + pdf_doc" where
  "draw_name env doc preferred_name width height helveticaBoldFont =
     (case preferred_name of
        Undefined \<Rightarrow> Inl (TypeError ''Cannot read properties of undefined (reading length)'')
      | Null \<Rightarrow> Inl (TypeError ''Cannot read properties of null (reading length)'')
      | Bool b \<Rightarrow> Inl (TypeError ''text must be of type string'')
      | Num n \<Rightarrow> Inl (TypeError ''text must be of type string'')
      | Str name \<Rightarrow>
          drawText env doc name
            \<lparr>text_x = width / 2 - real (length name * 12),
             text_y = height / 2 + 50,
             text_size = 24,
             text_font = helveticaBoldFont,
             text_color = rgb 0 0 0\<rparr>)"

definition render :: "env \<Rightarrow> row \<Rightarrow> error + pdf_bytes" where
  "render env studentData =
     bind_err (readFile env (templatePath env)) (\<lambda>templateBytes.
     bind_err (PDFDocument_load env templateBytes) (\<lambda>pdfDoc.
     bind_err (first_page pdfDoc) (\<lambda>firstPage.
     let width = page_width firstPage; height = page_height firstPage in
     bind_err (embedFont env pdfDoc Helvetica) (\<lambda>pdfDoc.
     let helveticaFont = Helvetica in
     bind_err (embedFont env pdfDoc HelveticaBold) (\<lambda>pdfDoc.
     let helveticaBoldFont = HelveticaBold;
         startDate = formatDate env (studentData ''internship_start_date'');
         endDate = formatDate env (studentData ''internship_end_date'')
     in
     bind_err (draw_name env pdfDoc (studentData ''preferred_name'') width height helveticaBoldFont)
       (\<lambda>pdfDoc.
     let completionText = ''has successfully completed a '' @ ToString env (studentData ''course_name'')
           @ '' Internship at '' @ ToString env (studentData ''company_name'') @ '','' in
     bind_err (drawText env pdfDoc completionText
             \<lparr>text_x = width / 2 - real (length completionText * 4),
              text_y = height / 2 + 10,
              text_size = 14,
              text_font = helveticaFont,
              text_color = rgb 0 0 0\<rparr>) (\<lambda>pdfDoc.
     let dateText = ''held from '' @ startDate @ '' to '' @ endDate @ ''.'' in
     bind_err (drawText env pdfDoc dateText
             \<lparr>text_x = width / 2 - real (length dateText * 4),
              text_y = height / 2 - 20,
              text_size = 14,
              text_font = helveticaFont,
              text_color = rgb 0 0 0\<rparr>) (\<lambda>pdfDoc.
     bind_err (generateQRCode env (studentData ''certificate_id'')) (\<lambda>qrCodeBuffer.
     bind_err (embedPng env pdfDoc qrCodeBuffer) (\<lambda>pdfDoc.
     let qrCodeImage = qrCodeBuffer;
         qrSize = 80;
         pdfDoc = drawImage pdfDoc qrCodeImage
                    \<lparr>image_x = width - qrSize - 20,
                     image_y = height - qrSize - 20,
                     image_width = qrSize,
                     image_height = qrSize\<rparr>
     in save env pdfDoc))))))))))"

text \<open>The \<open>try\<close> around the render: whatever was thrown is thrown again, wrapped.\<close>

definition generateCertificate :: "env \<Rightarrow> row \<Rightarrow> error + pdf_bytes" where
  "generateCertificate env studentData =
     (case render env studentData of
        Inr pdfBytes \<Rightarrow> Inr pdfBytes
      | Inl e \<Rightarrow> Inl (Error (''Certificate generation failed: '' @ message e)))"

subsection \<open>generateAndSaveCertificate\<close>

record result =
  result_success :: bool
  result_message :: string
  result_student :: jsval
  result_certificateId :: jsval
  result_size :: nat

definition requiredFields :: "string list" where
  "requiredFields = [''preferred_name'', ''course_name'', ''internship_start_date'',
                     ''internship_end_date'', ''company_name'', ''certificate_id'']"

fun join :: "string \<Rightarrow> string list \<Rightarrow> string" where
  "join sep [] = []"
| "join sep [x] = x"
| "join sep (x # y # ys) = x @ sep @ join sep (y # ys)"

definition fetch_query :: "jsval \<Rightarrow> query" where
  "fetch_query studentId = Select ''students'' ''*'' [(''student_id'', studentId)]"

definition store_query :: "jsval \<Rightarrow> pdf_bytes \<Rightarrow> query" where
  "store_query studentId certificateBuffer =
     Update ''students'' [(''certificate'', Bytes certificateBuffer)] [(''student_id'', studentId)]"

text \<open>
  The outcome of the operation, and the requests it sent to the data store, in order.
\<close>

definition generateAndSaveCertificate :: "env \<Rightarrow> jsval \<Rightarrow> (error + result) \<times> query list" where
  "generateAndSaveCertificate env studentId =
     (let fetched = supabase env (fetch_query studentId) in
      case error fetched of
        Some fetchError \<Rightarrow>
          (Inl (Error (''Failed to fetch student: '' @ message fetchError)), [fetch_query studentId])
      | None \<Rightarrow>
         (case data fetched of
            None \<Rightarrow> (Inl (Error ''Student not found''), [fetch_query studentId])
          | Some student \<Rightarrow>
             (let missingFields = filter (\<lambda>field. \<not> truthy (student field)) requiredFields in
              if length missingFields > 0
              then (Inl (Error (''Missing required fields: '' @ join '', '' missingFields)),
                    [fetch_query studentId])
              else
               (case generateCertificate env student of
                  Inl e \<Rightarrow> (Inl e, [fetch_query studentId])
                | Inr certificateBytes \<Rightarrow>
                   (let certificateBuffer = certificateBytes;
                        stored = supabase env (store_query studentId certificateBuffer)
                    in case error stored of
                         Some updateError \<Rightarrow>
                           (Inl (Error (''Failed to save certificate: '' @ message updateError)),
                            [fetch_query studentId, store_query studentId certificateBuffer])
                       | None \<Rightarrow>
                           (Inr \<lparr>result_success = True,
                                 result_message = ''Certificate generated and saved successfully'',
                                 result_student = student ''preferred_name'',
                                 result_certificateId = student ''certificate_id'',
                                 result_size = bytes_length certificateBytes\<rparr>,
                            [fetch_query studentId, store_query studentId certificateBuffer]))))))"

section \<open>The certificate request route\<close>

subsection \<open>More of the Date object and of the string functions\<close>

definition TimeWithinDay :: "int \<Rightarrow> int" where
  "TimeWithinDay t = t mod msPerDay"

definition UTC :: "('a runtime_env_scheme) \<Rightarrow> int \<Rightarrow> int" where
  "UTC env t = t - localTZA env t False"

text \<open>
  \<open>date.setMonth(month)\<close>, as the new time value of the Date object: an invalid date
  stays invalid, and a month that is \<open>NaN\<close> makes it invalid.
\<close>

definition setMonth :: "('a runtime_env_scheme) \<Rightarrow> int option \<Rightarrow> int option \<Rightarrow> int option" where
  "setMonth env tv month =
     (case tv of
        None \<Rightarrow> None
      | Some t0 \<Rightarrow>
         (case month of
            None \<Rightarrow> None
          | Some m \<Rightarrow>
             (let t = LocalTime env t0;
                  dt = DateFromTime t;
                  newDate = MakeDate (MakeDay (YearFromTime t) m dt) (TimeWithinDay t)
              in TimeClip (UTC env newDate))))"

text \<open>Addition of two numbers that may be \<open>NaN\<close>.\<close>

definition js_add :: "int option \<Rightarrow> int option \<Rightarrow> int option" where
  "js_add a b = (case a of None \<Rightarrow> None | Some x \<Rightarrow> (case b of None \<Rightarrow> None | Some y \<Rightarrow> Some (x + y)))"

definition pad_start :: "nat \<Rightarrow> string \<Rightarrow> string" where
  "pad_start n s = replicate (n - length s) CHR ''0'' @ s"

text \<open>
  \<open>date.toISOString()\<close> throws a RangeError on an invalid date. The year has four digits
  from 0 to 9999 and a sign and six digits otherwise; all fields are those of UTC.
\<close>

definition iso_year :: "int \<Rightarrow> string" where
  "iso_year y =
     (if 0 \<le> y \<and> y \<le> 9999 then pad_start 4 (show_nat (nat y))
      else (if y < 0 then ''-'' else ''+'') @ pad_start 6 (show_nat (nat \<bar>y\<bar>)))"

definition toISOString :: "int option \<Rightarrow> error + string" where
  "toISOString tv =
     (case tv of
        None \<Rightarrow> Inl (RangeError ''Invalid time value'')
      | Some t \<Rightarrow>
          Inr (iso_year (YearFromTime t) @ ''-''
               @ pad_start 2 (show_nat (nat (MonthFromTime t + 1))) @ ''-''
               @ pad_start 2 (show_nat (nat (DateFromTime t))) @ ''T''
               @ pad_start 2 (show_nat (nat (TimeWithinDay t div 3600000))) @ '':''
               @ pad_start 2 (show_nat (nat (TimeWithinDay t div 60000 mod 60))) @ '':''
               @ pad_start 2 (show_nat (nat (TimeWithinDay t div 1000 mod 60))) @ ''.''
               @ pad_start 3 (show_nat (nat (TimeWithinDay t mod 1000))) @ ''Z''))"

text \<open>\<open>s.split('T')[0]\<close>: the part of \<open>s\<close> before its first \<open>T\<close>.\<close>

definition split_T_first :: "string \<Rightarrow> string" where
  "split_T_first s = takeWhile (\<lambda>c. c \<noteq> CHR ''T'') s"

text \<open>White space, as far as it has one code unit of eight bits.\<close>

definition is_space :: "char \<Rightarrow> bool" where
  "is_space c = (c \<in> set [CHR 0x09, CHR 0x0A, CHR 0x0B, CHR 0x0C, CHR 0x0D, CHR 0x20, CHR 0xA0])"

definition trim :: "string \<Rightarrow> string" where
  "trim s = rev (dropWhile is_space (rev (dropWhile is_space s)))"

text \<open>
  \<open>v.trim()\<close> on a value of the request body: only a string has the method.
\<close>

definition call_trim :: "jsval \<Rightarrow> error + string" where
  "call_trim v =
     (case v of
        Str s \<Rightarrow> Inr (trim s)
      | Undefined \<Rightarrow> Inl (TypeError ''Cannot read properties of undefined (reading trim)'')
      | Null \<Rightarrow> Inl (TypeError ''Cannot read properties of null (reading trim)'')
      | Bool b \<Rightarrow> Inl (TypeError ''preferred_name.trim is not a function'')
      | Num n \<Rightarrow> Inl (TypeError ''preferred_name.trim is not a function''))"

text \<open>
  \<open>parseInt(v)\<close> without a radix: the value as a string, leading white space dropped, an
  optional sign, an optional \<open>0x\<close> for base sixteen, and then the longest run of digits
  of the base; \<open>NaN\<close> when there is no digit.
\<close>

definition digit_of :: "char \<Rightarrow> nat" where
  "digit_of c =
     (let n = of_char c
      in if 48 \<le> n \<and> n \<le> 57 then n - 48
         else if 97 \<le> n \<and> n \<le> 122 then n - 87
         else if 65 \<le> n \<and> n \<le> 90 then n - 55
         else 36)"

definition parseInt :: "('a runtime_env_scheme) \<Rightarrow> jsval \<Rightarrow> int option" where
  "parseInt env v =
     (let s = dropWhile is_space (ToString env v);
          negative = (s \<noteq> [] \<and> hd s = CHR ''-'');
          s1 = (if s \<noteq> [] \<and> (hd s = CHR ''-'' \<or> hd s = CHR ''+'') then tl s else s);
          hex = (take 2 s1 = ''0x'' \<or> take 2 s1 = ''0X'');
          radix = (if hex then 16 else 10);
          s2 = (if hex then drop 2 s1 else s1);
          ds = takeWhile (\<lambda>c. digit_of c < radix) s2;
          n = foldl (\<lambda>acc c. acc * int radix + int (digit_of c)) 0 ds
      in if ds = [] then None else Some (if negative then - n else n))"

text \<open>A number that may be \<open>NaN\<close> as it is sent in a JSON body: \<open>NaN\<close> is sent as \<open>null\<close>.\<close>

definition number_val :: "int option \<Rightarrow> jsval" where
  "number_val n = (case n of None \<Rightarrow> Null | Some i \<Rightarrow> Num i)"

subsection \<open>generateCertificateId\<close>

text \<open>
  \<open>random i\<close> is the result of call number \<open>i\<close> of \<open>Math.random()\<close> in this request, a
  number from 0 up to but not including 1. \<open>s.charAt(i)\<close> is empty outside the string.
\<close>

definition chars :: string where
  "chars = ''ABCDEFGHIJKLMNOPQRSTUVWXYZ0123456789''"

definition charAt :: "string \<Rightarrow> int \<Rightarrow> string" where
  "charAt s i = (if 0 \<le> i \<and> i < int (length s) then [s ! nat i] else [])"

function generateCertificateId_loop :: "(nat \<Rightarrow> real) \<Rightarrow> nat \<Rightarrow> string \<Rightarrow> string" where
  "generateCertificateId_loop random i result =
     (if i < 8
      then generateCertificateId_loop random (i + 1)
             (result @ charAt chars \<lfloor>random i * real (length chars)\<rfloor>)
      else result)"
  by pat_completeness auto
termination
  by (relation "measure (\<lambda>(random, i, result). 8 - i)") auto

declare generateCertificateId_loop.simps [simp del]

definition generateCertificateId :: "(nat \<Rightarrow> real) \<Rightarrow> string" where
  "generateCertificateId random = generateCertificateId_loop random 0 []"

subsection \<open>The route\<close>

text \<open>
  A JSON response body, and a response. The environment of a request has the time zone
  and date parser of the process, the answers of the data store, the random numbers and
  the current time.
\<close>

datatype json = JVal jsval | JObj "(string \<times> json) list"

record http_response =
  status :: nat
  body :: json

record request_env = store_env +
  random :: "nat \<Rightarrow> real"
  now :: int

definition courses_query :: "jsval \<Rightarrow> query" where
  "courses_query course_name =
     Select ''courses'' ''course_id, course_name'' [(''course_name'', course_name)]"

definition companies_query :: "jsval \<Rightarrow> query" where
  "companies_query company_name =
     Select ''companies'' ''company_id, company_name'' [(''company_name'', company_name)]"

definition existing_query :: "jsval \<Rightarrow> query" where
  "existing_query phone_number =
     Select ''students'' ''certificate_id, internship_start_date, preferred_name''
       [(''phone_number'', phone_number), (''deleted'', Bool False)]"

definition failure :: "nat \<Rightarrow> string \<Rightarrow> string \<Rightarrow> string \<Rightarrow> http_response" where
  "failure code err key txt =
     \<lparr>status = code,
      body = JObj [(''success'', JVal (Bool False)), (''error'', JVal (Str err)),
                   (key, JVal (Str txt))]\<rparr>"

text \<open>What the \<open>catch\<close> of the route answers to a thrown error.\<close>

definition caught :: "error \<Rightarrow> http_response" where
  "caught e = failure 500 ''Failed to process certificate request'' ''message'' (message e)"

text \<open>
  The handler of \<open>POST /request\<close> gives the response, and the requests sent to the data
  store, in order. It is written in three parts, in the order of the source: the end of
  the handler, from the answer to the update on; its middle, from the end date on; and
  its beginning, the validation and the two lookups.
\<close>

definition after_update ::
  "request_env \<Rightarrow> row \<Rightarrow> string \<Rightarrow> query list \<Rightarrow> response \<Rightarrow> http_response \<times> query list" where
  "after_update env req_body endIso sent r4 =
     (case error r4 of
        Some updateError \<Rightarrow>
          (failure 500 ''Failed to submit certificate request'' ''details'' (message updateError),
           sent)
      | None \<Rightarrow>
         (case data r4 of
            None \<Rightarrow>
              (failure 404 ''Student not found'' ''message''
                 ''No student found with the provided phone number'', sent)
          | Some updatedStudent \<Rightarrow>
             (case toISOString (TimeClip (now env)) of
                Inl e \<Rightarrow> (caught e, sent)
              | Inr requestDate \<Rightarrow>
                  (\<lparr>status = 200,
                    body = JObj
                      [(''success'', JVal (Bool True)),
                       (''message'', JVal (Str ''Certificate request submitted successfully'')),
                       (''data'', JObj
                          [(''studentId'', JVal (updatedStudent ''student_id'')),
                           (''name'', JVal (updatedStudent ''name'')),
                           (''preferredName'', JVal (updatedStudent ''preferred_name'')),
                           (''course'', JVal (req_body ''course_name'')),
                           (''company'', JVal (req_body ''company_name'')),
                           (''internshipStartDate'', JVal (req_body ''internship_start_date'')),
                           (''internshipEndDate'', JVal (Str (split_T_first endIso))),
                           (''requestDate'', JVal (Str requestDate))])]\<rparr>,
                   sent))))"

definition after_lookups ::
  "request_env \<Rightarrow> row \<Rightarrow> row \<Rightarrow> row \<Rightarrow> query list \<Rightarrow> http_response \<times> query list" where
  "after_lookups env req_body courses companies sent =
     (let startDate = new_Date env (req_body ''internship_start_date'');
          endDate = setMonth env startDate
                      (js_add (getMonth env startDate) (parseInt env (req_body ''internship_duration'')));
          q3 = existing_query (req_body ''phone_number'');
          existingStudent = data (supabase env q3)
      in
      if (case existingStudent of
            None \<Rightarrow> False
          | Some existing \<Rightarrow>
              truthy (existing ''internship_start_date'') \<or> truthy (existing ''preferred_name''))
      then (failure 400 ''Certificate request already submitted'' ''message''
              ''You have already submitted a certificate request. Each student can only request a certificate once.'',
            sent @ [q3])
      else
       (let certificateId =
              (case existingStudent of
                 None \<Rightarrow> Str (generateCertificateId (random env))
               | Some existing \<Rightarrow>
                   if truthy (existing ''certificate_id'') then existing ''certificate_id''
                   else Str (generateCertificateId (random env)))
        in
        case toISOString endDate of
          Inl e \<Rightarrow> (caught e, sent @ [q3])
        | Inr endIso \<Rightarrow>
           (case call_trim (req_body ''preferred_name'') of
              Inl e \<Rightarrow> (caught e, sent @ [q3])
            | Inr trimmed \<Rightarrow>
               (let q4 = Update ''students''
                           [(''internship_start_date'', Val (req_body ''internship_start_date'')),
                            (''internship_end_date'', Val (Str (split_T_first endIso))),
                            (''internship_duration'',
                               Val (number_val (parseInt env (req_body ''internship_duration'')))),
                            (''course_id'', Val (courses ''course_id'')),
                            (''company_id'', Val (companies ''company_id'')),
                            (''preferred_name'', Val (Str trimmed)),
                            (''certificate_id'', Val certificateId)]
                           [(''phone_number'', req_body ''phone_number''), (''deleted'', Bool False)]
                in after_update env req_body endIso (sent @ [q3, q4]) (supabase env q4)))))"

text \<open>
  The row of an answer, when it has no error: the test \<open>error || !data\<close> of the source is
  \<open>found r = None\<close>.
\<close>

definition found :: "response \<Rightarrow> row option" where
  "found r = (case error r of Some e \<Rightarrow> None | None \<Rightarrow> data r)"

definition post_request :: "request_env \<Rightarrow> row \<Rightarrow> http_response \<times> query list" where
  "post_request env req_body =
     (if \<not> truthy (req_body ''phone_number'') \<or> \<not> truthy (req_body ''internship_start_date'')
         \<or> \<not> truthy (req_body ''internship_duration'') \<or> \<not> truthy (req_body ''course_name'')
         \<or> \<not> truthy (req_body ''company_name'') \<or> \<not> truthy (req_body ''preferred_name'')
      then (failure 400 ''Missing required fields'' ''message''
              ''All fields are required for certificate request'', [])
      else
       (let q1 = courses_query (req_body ''course_name'') in
        case found (supabase env q1) of
          None \<Rightarrow>
            (failure 400 ''Invalid course selection'' ''message'' ''Selected course not found'',
             [q1])
        | Some courses \<Rightarrow>
           (let q2 = companies_query (req_body ''company_name'') in
            case found (supabase env q2) of
              None \<Rightarrow>
                (failure 400 ''Invalid company selection'' ''message''
                   ''Selected company not found'', [q1, q2])
            | Some companies \<Rightarrow> after_lookups env req_body courses companies [q1, q2])))"

section \<open>Observations and sample data\<close>

subsection \<open>What is read off a run\<close>

text \<open>
  The keys under which a run stores: the values that the filters of its update requests
  compare with.
\<close>

fun persist_keys :: "query list \<Rightarrow> jsval list" where
  "persist_keys [] = []"
| "persist_keys (Select t c fs # qs) = persist_keys qs"
| "persist_keys (Update t vs fs # qs) = map snd fs @ persist_keys qs"

text \<open>The values that the update requests of a run assign to \<open>certificate_id\<close>.\<close>

fun certificate_ids_written :: "query list \<Rightarrow> colval list" where
  "certificate_ids_written [] = []"
| "certificate_ids_written (Select t c fs # qs) = certificate_ids_written qs"
| "certificate_ids_written (Update t vs fs # qs) =
     map snd (filter (\<lambda>(column, v). column = ''certificate_id'') vs) @ certificate_ids_written qs"

text \<open>The placement of every image drawn on the first page of a saved document.\<close>

definition image_placements :: "pdf_bytes \<Rightarrow> image_options list" where
  "image_placements b =
     (case pages (serialized b) of
        [] \<Rightarrow> []
      | p # ps \<Rightarrow>
          concat (map (\<lambda>op. case op of DrawText t opts \<Rightarrow> [] | DrawImage img opts \<Rightarrow> [opts])
                    (content p)))"

text \<open>
  The visual centre of a text line: its start plus half of its estimated width, the
  estimated width being the number of characters times \<open>c\<close>.
\<close>

definition visual_center :: "text_options \<Rightarrow> string \<Rightarrow> real \<Rightarrow> real" where
  "visual_center opts txt c = text_x opts + (real (length txt) * c) / 2"

text \<open>
  Names for the four drawing operations of \<^const>\<open>render\<close> on a first page \<open>p\<close>, and for
  the QR image of an identifier. Lemma \<open>render_Inr\<close> below shows that they are what
  \<^const>\<open>render\<close> draws.
\<close>

definition qr_image :: "string \<Rightarrow> png" where
  "qr_image cid =
     QRCodePng cid \<lparr>qr_type = ''png'', qr_width = 150, qr_margin = 1,
                    color_dark = ''#000000'', color_light = ''#FFFFFF''\<rparr>"

definition name_line :: "page \<Rightarrow> string \<Rightarrow> draw_op" where
  "name_line p name =
     DrawText name
       \<lparr>text_x = page_width p / 2 - real (length name * 12),
        text_y = page_height p / 2 + 50, text_size = 24, text_font = HelveticaBold,
        text_color = rgb 0 0 0\<rparr>"

definition completion_line :: "env \<Rightarrow> page \<Rightarrow> row \<Rightarrow> draw_op" where
  "completion_line env p sd =
     DrawText (''has successfully completed a '' @ ToString env (sd ''course_name'')
               @ '' Internship at '' @ ToString env (sd ''company_name'') @ '','')
       \<lparr>text_x = page_width p / 2
                 - real (length (''has successfully completed a '' @ ToString env (sd ''course_name'')
                     @ '' Internship at '' @ ToString env (sd ''company_name'') @ '','') * 4),
        text_y = page_height p / 2 + 10, text_size = 14, text_font = Helvetica,
        text_color = rgb 0 0 0\<rparr>"

definition date_line :: "env \<Rightarrow> page \<Rightarrow> row \<Rightarrow> draw_op" where
  "date_line env p sd =
     DrawText (''held from '' @ formatDate env (sd ''internship_start_date'') @ '' to ''
               @ formatDate env (sd ''internship_end_date'') @ ''.'')
       \<lparr>text_x = page_width p / 2
                 - real (length (''held from '' @ formatDate env (sd ''internship_start_date'')
                     @ '' to '' @ formatDate env (sd ''internship_end_date'') @ ''.'') * 4),
        text_y = page_height p / 2 - 20, text_size = 14, text_font = Helvetica,
        text_color = rgb 0 0 0\<rparr>"

definition qr_stamp :: "page \<Rightarrow> string \<Rightarrow> draw_op" where
  "qr_stamp p cid =
     DrawImage (qr_image cid)
       \<lparr>image_x = page_width p - 80 - 20, image_y = page_height p - 80 - 20,
        image_width = 80, image_height = 80\<rparr>"

subsection \<open>A sample run\<close>

text \<open>
  A template of one page of 842 by 595 points, a stored row with every required field,
  libraries and a data store that do not fail, and a process in UTC. No number of the
  sample runs is as large as \<open>10\<^sup>2\<^sup>1\<close>.
\<close>

definition sample_template :: pdf_doc where
  "sample_template =
     \<lparr>pages = [\<lparr>page_width = 842, page_height = 595, content = []\<rparr>], fonts = [], images = []\<rparr>"

definition sample_row :: row where
  "sample_row =
     (\<lambda>field. Undefined)
       (''student_id'' := Num 1,
        ''preferred_name'' := Str ''Asha Rao'',
        ''course_name'' := Str ''Full Stack'',
        ''company_name'' := Str ''AddWise Tech Innovations'',
        ''internship_start_date'' := Str ''2025-01-15'',
        ''internship_end_date'' := Str ''2025-04-15'',
        ''certificate_id'' := Str ''ABCD1234'')"

fun sample_db :: "query \<Rightarrow> response" where
  "sample_db (Select t c fs) =
     (if t = ''students'' \<and> fs = [(''student_id'', Num 1)]
      then \<lparr>data = Some sample_row, error = None\<rparr>
      else \<lparr>data = None, error = Some (Error ''no rows'')\<rparr>)"
| "sample_db (Update t vs fs) = \<lparr>data = None, error = None\<rparr>"

definition sample_readFile :: "string \<Rightarrow> error + nat list" where
  "sample_readFile p =
     (if p = ''template/template.pdf'' then Inr [37, 80, 68, 70] else Inl (Error ''ENOENT''))"

definition utc_offset :: "int \<Rightarrow> bool \<Rightarrow> int" where
  "utc_offset t isUTC = 0"

definition no_parse :: "string \<Rightarrow> int option" where
  "no_parse s = None"

definition sample_exponential :: "int \<Rightarrow> string" where
  "sample_exponential n = (if n < 0 then ''-1e+21'' else ''1e+21'')"

definition load_sample :: "nat list \<Rightarrow> error + pdf_doc" where
  "load_sample bs = Inr sample_template"

definition font_ok :: "font \<Rightarrow> error option" where
  "font_ok f = None"

definition text_ok :: "font \<Rightarrow> string \<Rightarrow> error option" where
  "text_ok f t = None"

definition qr_ok :: "string \<Rightarrow> qr_options \<Rightarrow> error option" where
  "qr_ok s opts = None"

definition png_ok :: "png \<Rightarrow> error option" where
  "png_ok img = None"

definition save_ok :: "pdf_doc \<Rightarrow> error option" where
  "save_ok d = None"

definition sample_length :: "pdf_doc \<Rightarrow> int \<Rightarrow> nat" where
  "sample_length d t = 1000"

definition sample_env :: env where
  "sample_env =
     \<lparr>localTZA = utc_offset, impl_parse = no_parse, exponential = sample_exponential,
      supabase = sample_db,
      templatePath = ''template/template.pdf'', readFile = sample_readFile,
      PDFDocument_load = load_sample, embedFont_error = font_ok,
      drawText_error = text_ok, QRCode_error = qr_ok,
      embedPng_error = png_ok, save_error = save_ok,
      save_time = 1750000000000, save_length = sample_length\<rparr>"

text \<open>The same process five hours west of UTC.\<close>

definition est_offset :: "int \<Rightarrow> bool \<Rightarrow> int" where
  "est_offset t isUTC = - 18000000"

definition west_env :: env where
  "west_env = sample_env\<lparr>localTZA := est_offset\<rparr>"

text \<open>A stored row whose company name is null, and a data store that returns it.\<close>

definition incomplete_row :: row where
  "incomplete_row = sample_row(''company_name'' := Null)"

fun incomplete_db :: "query \<Rightarrow> response" where
  "incomplete_db (Select t c fs) = \<lparr>data = Some incomplete_row, error = None\<rparr>"
| "incomplete_db (Update t vs fs) = \<lparr>data = None, error = None\<rparr>"

definition incomplete_env :: env where
  "incomplete_env = sample_env\<lparr>supabase := incomplete_db\<rparr>"

text \<open>A stored row whose start date is not a date, and a data store that returns it.\<close>

definition undated_row :: row where
  "undated_row = sample_row(''internship_start_date'' := Str ''next spring'')"

fun undated_db :: "query \<Rightarrow> response" where
  "undated_db (Select t c fs) = \<lparr>data = Some undated_row, error = None\<rparr>"
| "undated_db (Update t vs fs) = \<lparr>data = None, error = None\<rparr>"

definition undated_env :: env where
  "undated_env = sample_env\<lparr>supabase := undated_db\<rparr>"

text \<open>A process whose template file is missing.\<close>

definition broken_env :: env where
  "broken_env = sample_env\<lparr>templatePath := ''missing.pdf''\<rparr>"

text \<open>
  A name of forty characters, and the placements of a name of two characters and of that
  name on a page 842 points wide.
\<close>

definition long_name :: string where
  "long_name = ''Maximiliana Alexandrovna Konstantinopoli''"

definition short_name_options :: text_options where
  "short_name_options =
     \<lparr>text_x = 397, text_y = 595 / 2 + 50, text_size = 24, text_font = HelveticaBold,
      text_color = rgb 0 0 0\<rparr>"

definition long_name_options :: text_options where
  "long_name_options =
     \<lparr>text_x = - 59, text_y = 595 / 2 + 50, text_size = 24, text_font = HelveticaBold,
      text_color = rgb 0 0 0\<rparr>"

subsection \<open>A sample request\<close>

text \<open>
  A registered student who has an identifier and has not yet requested a certificate, a
  data store that knows the course and the company, random numbers that are all zero,
  and the request of the repository's own test.
\<close>

definition registered_row :: row where
  "registered_row =
     (\<lambda>field. Undefined)
       (''student_id'' := Num 7, ''name'' := Str ''Asha'', ''certificate_id'' := Str ''OLDID123'',
        ''internship_start_date'' := Null, ''preferred_name'' := Null)"

definition course_row :: row where
  "course_row = (\<lambda>field. Undefined)(''course_id'' := Num 2, ''course_name'' := Str ''Full Stack'')"

definition company_row :: row where
  "company_row =
     (\<lambda>field. Undefined)
       (''company_id'' := Num 5, ''company_name'' := Str ''AddWise Tech Innovations'')"

fun request_db :: "query \<Rightarrow> response" where
  "request_db (Select t c fs) =
     (if t = ''courses'' then \<lparr>data = Some course_row, error = None\<rparr>
      else if t = ''companies'' then \<lparr>data = Some company_row, error = None\<rparr>
      else \<lparr>data = Some registered_row, error = None\<rparr>)"
| "request_db (Update t vs fs) = \<lparr>data = Some registered_row, error = None\<rparr>"

definition no_luck :: "nat \<Rightarrow> real" where
  "no_luck i = 0"

definition sample_request_env :: request_env where
  "sample_request_env =
     \<lparr>localTZA = utc_offset, impl_parse = no_parse, exponential = sample_exponential,
      supabase = request_db,
      random = no_luck, now = 1750000000000\<rparr>"

definition sample_body :: row where
  "sample_body =
     (\<lambda>field. Undefined)
       (''phone_number'' := Str ''8184930950'',
        ''internship_start_date'' := Str ''2025-01-15'',
        ''internship_duration'' := Num 3,
        ''course_name'' := Str ''Full Stack'',
        ''company_name'' := Str ''AddWise Tech Innovations'',
        ''preferred_name'' := Str ''Test User Certificate Request'')"

text \<open>
  The same data store when the lookup of the student fails: every select on the students
  table is answered with an error and no row, and everything else as before.
\<close>

fun flaky_db :: "query \<Rightarrow> response" where
  "flaky_db (Select t c fs) =
     (if t = ''students'' then \<lparr>data = None, error = Some (Error ''fetch failed'')\<rparr>
      else request_db (Select t c fs))"
| "flaky_db (Update t vs fs) = request_db (Update t vs fs)"

definition flaky_env :: request_env where
  "flaky_env = sample_request_env\<lparr>supabase := flaky_db\<rparr>"

section \<open>Properties of the calendar\<close>

lemma DayFromYear_1970: "DayFromYear 1970 = 0"
  by (simp add: DayFromYear_def)

lemma DayFromYear_after: "0 \<le> k \<Longrightarrow> DayFromYear (1970 + k) \<le> 366 * k"
proof (induction k rule: int_ge_induct)
  case base
  then show ?case by (simp add: DayFromYear_1970)
next
  case (step i)
  have "DayFromYear (1970 + (i + 1)) = DayFromYear (1970 + i) + DaysInYear (1970 + i)"
    using DayFromYear_succ [of "1970 + i"] by (simp add: add.assoc)
  with step.IH DaysInYear_bounds(2) [of "1970 + i"] show ?case
    by simp
qed

lemma DayFromYear_before: "k \<le> 0 \<Longrightarrow> DayFromYear (1970 + k) \<le> 365 * k"
proof (induction k rule: int_le_induct)
  case base
  then show ?case by (simp add: DayFromYear_1970)
next
  case (step i)
  have "DayFromYear (1970 + i) = DayFromYear (1970 + (i - 1)) + DaysInYear (1970 + (i - 1))"
    using DayFromYear_succ [of "1970 + (i - 1)"] by simp
  with step.IH DaysInYear_bounds(1) [of "1970 + (i - 1)"] show ?case
    by simp
qed

lemma DayFromYear_mono: "y \<le> z \<Longrightarrow> DayFromYear y \<le> DayFromYear z"
proof (induction z rule: int_ge_induct)
  case base
  then show ?case by simp
next
  case (step i)
  with DayFromYear_step [of i] show ?case by simp
qed

lemma year_search_spec:
  "DayFromYear y \<le> d \<Longrightarrow>
     DayFromYear (year_search d y) \<le> d \<and> d < DayFromYear (year_search d y + 1)"
proof (induction d y rule: year_search.induct)
  case (1 d y)
  show ?case
  proof (cases "DayFromYear (y + 1) \<le> d")
    case True
    with "1.IH" show ?thesis
      by (simp add: year_search.simps [of d y])
  next
    case False
    with "1.prems" show ?thesis
      by (simp add: year_search.simps [of d y])
  qed
qed

text \<open>
  \<open>YearFromTime t\<close> is the year of the day of \<open>t\<close>: the largest year whose first day is
  not after it.
\<close>

lemma YearFromTime_spec:
  "DayFromYear (YearFromTime t) \<le> Day t" "Day t < DayFromYear (YearFromTime t + 1)"
  "DayFromYear y \<le> Day t \<Longrightarrow> y \<le> YearFromTime t"
proof -
  define y0 where "y0 = 1970 + (if 0 \<le> Day t then Day t div 366 else Day t div 365)"
  have start: "DayFromYear y0 \<le> Day t"
  proof (cases "0 \<le> Day t")
    case True
    then have "0 \<le> Day t div 366"
      by (simp add: pos_imp_zdiv_nonneg_iff)
    from DayFromYear_after [OF this] have "DayFromYear y0 \<le> 366 * (Day t div 366)"
      using True by (simp add: y0_def)
    also have "\<dots> \<le> Day t"
      using True by (metis add.commute add_increasing2 mult.commute mult_div_mod_eq pos_mod_sign zero_less_numeral Euclidean_Rings.pos_mod_sign div_mult_mod_eq le_add_same_cancel1)
    finally show ?thesis .
  next
    case False
    then have "Day t div 365 \<le> 0"
      by (simp add: div_nonpos_pos_le0)
    from DayFromYear_before [OF this] have "DayFromYear y0 \<le> 365 * (Day t div 365)"
      using False by (simp add: y0_def)
    also have "\<dots> \<le> Day t"
      by (metis add.commute add_increasing2 mult.commute mult_div_mod_eq pos_mod_sign zero_less_numeral Euclidean_Rings.pos_mod_sign div_mult_mod_eq le_add_same_cancel1)
    finally show ?thesis .
  qed
  have Y: "YearFromTime t = year_search (Day t) y0"
    by (simp add: YearFromTime_def y0_def Let_def)
  from year_search_spec [OF start] show "DayFromYear (YearFromTime t) \<le> Day t"
    and upper: "Day t < DayFromYear (YearFromTime t + 1)"
    by (simp_all add: Y)
  show "y \<le> YearFromTime t" if "DayFromYear y \<le> Day t"
  proof (rule ccontr)
    assume "\<not> y \<le> YearFromTime t"
    then have "YearFromTime t + 1 \<le> y" by simp
    from DayFromYear_mono [OF this] upper that show False by simp
  qed
qed

section \<open>Properties of the generator\<close>

subsection \<open>The sample run\<close>

lemmas sample_defs = sample_env_def sample_exponential_def sample_row_def sample_template_def sample_readFile_def
  utc_offset_def no_parse_def load_sample_def font_ok_def text_ok_def qr_ok_def png_ok_def save_ok_def
  sample_length_def

lemma sample_render: "\<exists>b. render sample_env sample_row = Inr b"
  by (simp add: render_def bind_err_def sample_defs first_page_def embedFont_def draw_name_def
    drawText_def generateQRCode_def QRCode_toBuffer_def embedPng_def save_def Let_def)

lemma sample_generate: "\<exists>b. generateCertificate sample_env sample_row = Inr b"
  using sample_render by (auto simp: generateCertificate_def)

lemma sample_fetch:
  "supabase sample_env (fetch_query (Num 1)) = \<lparr>data = Some sample_row, error = None\<rparr>"
  by (simp add: sample_env_def fetch_query_def)

lemma sample_store: "supabase sample_env (store_query k b) = \<lparr>data = None, error = None\<rparr>"
  by (simp add: sample_env_def store_query_def)

lemma sample_required: "filter (\<lambda>field. \<not> truthy (sample_row field)) requiredFields = []"
  by (simp add: requiredFields_def sample_row_def)

subsection \<open>Steps that return\<close>

lemma bind_err_Inr: "bind_err r f = Inr b \<longleftrightarrow> (\<exists>v. r = Inr v \<and> f v = Inr b)"
  by (cases r) (simp_all add: bind_err_def)

lemma first_page_Inr: "first_page doc = Inr p \<longleftrightarrow> (\<exists>ps. pages doc = p # ps)"
  by (cases "pages doc") (auto simp: first_page_def)

lemma embedFont_Inr:
  "embedFont env doc f = Inr d \<longleftrightarrow> embedFont_error env f = None \<and> d = doc\<lparr>fonts := fonts doc @ [f]\<rparr>"
  by (auto simp: embedFont_def split: option.splits)

lemma drawText_Inr:
  "drawText env doc t opts = Inr d \<longleftrightarrow>
     drawText_error env (text_font opts) t = None \<and> d = on_first_page doc (DrawText t opts)"
  by (auto simp: drawText_def split: option.splits)

lemma draw_name_Inr:
  "draw_name env doc v w h f = Inr d \<longleftrightarrow>
     (\<exists>name. v = Str name \<and>
        drawText env doc name
          \<lparr>text_x = w / 2 - real (length name * 12), text_y = h / 2 + 50, text_size = 24,
           text_font = f, text_color = rgb 0 0 0\<rparr> = Inr d)"
  by (cases v) (simp_all add: draw_name_def)

lemma generateQRCode_Inr:
  "generateQRCode env v = Inr img \<longleftrightarrow>
     (\<exists>cid. v = Str cid \<and> cid \<noteq> []
        \<and> QRCode_error env cid \<lparr>qr_type = ''png'', qr_width = 150, qr_margin = 1,
              color_dark = ''#000000'', color_light = ''#FFFFFF''\<rparr> = None
        \<and> img = QRCodePng cid \<lparr>qr_type = ''png'', qr_width = 150, qr_margin = 1,
              color_dark = ''#000000'', color_light = ''#FFFFFF''\<rparr>)"
  by (cases v) (auto simp: generateQRCode_def QRCode_toBuffer_def split: option.splits)

lemma embedPng_Inr:
  "embedPng env doc img = Inr d \<longleftrightarrow> embedPng_error env img = None \<and> d = doc\<lparr>images := images doc @ [img]\<rparr>"
  by (auto simp: embedPng_def split: option.splits)

lemma save_Inr:
  "save env doc = Inr b \<longleftrightarrow>
     save_error env doc = None
     \<and> b = \<lparr>serialized = doc, written_at = save_time env,
            bytes_length = save_length env doc (save_time env)\<rparr>"
  by (auto simp: save_def split: option.splits)

lemma on_first_page_pages:
  "pages doc = p # ps \<Longrightarrow> pages (on_first_page doc op) = p\<lparr>content := content p @ [op]\<rparr> # ps"
  by (simp add: on_first_page_def)

lemma on_first_page_rest:
  "fonts (on_first_page doc op) = fonts doc" "images (on_first_page doc op) = images doc"
  by (simp_all add: on_first_page_def)

text \<open>What a render that returns bytes has done.\<close>

lemma render_Inr:
  assumes "render env sd = Inr b"
  shows "\<exists>tb doc p ps name cid.
       readFile env (templatePath env) = Inr tb
     \<and> PDFDocument_load env tb = Inr doc
     \<and> pages doc = p # ps
     \<and> embedFont_error env Helvetica = None
     \<and> embedFont_error env HelveticaBold = None
     \<and> sd ''preferred_name'' = Str name
     \<and> sd ''certificate_id'' = Str cid
     \<and> generateQRCode env (sd ''certificate_id'') = Inr (qr_image cid)
     \<and> embedPng_error env (qr_image cid) = None
     \<and> save_error env (serialized b) = None
     \<and> pages (serialized b)
          = p\<lparr>content := content p @ [name_line p name, completion_line env p sd,
                                        date_line env p sd, qr_stamp p cid]\<rparr> # ps
     \<and> fonts (serialized b) = fonts doc @ [Helvetica, HelveticaBold]
     \<and> images (serialized b) = images doc @ [qr_image cid]
     \<and> written_at b = save_time env
     \<and> bytes_length b = save_length env (serialized b) (save_time env)"
  using assms
  apply (simp add: render_def bind_err_Inr first_page_Inr embedFont_Inr draw_name_Inr drawText_Inr
      embedPng_Inr save_Inr Let_def drawImage_def)
  apply (elim exE conjE)
  apply (simp add: generateQRCode_Inr on_first_page_pages on_first_page_rest)
  apply (elim exE conjE)
  apply (simp add: on_first_page_pages on_first_page_rest name_line_def completion_line_def
      date_line_def qr_stamp_def qr_image_def)
  done

lemma generateCertificate_Inr: "generateCertificate env sd = Inr b \<longleftrightarrow> render env sd = Inr b"
  by (cases "render env sd") (simp_all add: generateCertificate_def)

lemma generateCertificate_Inl:
  "generateCertificate env sd = Inl e \<longleftrightarrow>
     (\<exists>cause. render env sd = Inl cause \<and> e = Error (''Certificate generation failed: '' @ message cause))"
  by (cases "render env sd") (auto simp add: generateCertificate_def)

lemma generateAndSaveCertificate_Inr:
  assumes "generateAndSaveCertificate env studentId = (Inr r, qs)"
  shows "\<exists>student b.
       supabase env (fetch_query studentId) = \<lparr>data = Some student, error = None\<rparr>
     \<and> filter (\<lambda>field. \<not> truthy (student field)) requiredFields = []
     \<and> generateCertificate env student = Inr b
     \<and> error (supabase env (store_query studentId b)) = None
     \<and> r = \<lparr>result_success = True,
             result_message = ''Certificate generated and saved successfully'',
             result_student = student ''preferred_name'',
             result_certificateId = student ''certificate_id'',
             result_size = bytes_length b\<rparr>
     \<and> qs = [fetch_query studentId, store_query studentId b]"
proof -
  obtain d e where resp: "supabase env (fetch_query studentId) = \<lparr>data = d, error = e\<rparr>"
    by (cases "supabase env (fetch_query studentId)") simp
  from assms resp show ?thesis
    by (auto simp: generateAndSaveCertificate_def Let_def split: option.splits if_splits sum.splits)
qed

subsection \<open>Steps that throw\<close>

lemma render_Inl_steps:
  "isl (readFile env (templatePath env)) \<Longrightarrow> isl (render env sd)"
  "readFile env (templatePath env) = Inr tb \<Longrightarrow> isl (PDFDocument_load env tb) \<Longrightarrow> isl (render env sd)"
  by (auto simp: render_def bind_err_def split: sum.splits)

lemma not_isl_generateCertificate:
  assumes "\<not> isl (generateCertificate env sd)"
  obtains b where "render env sd = Inr b"
  using assms by (cases "render env sd") (simp_all add: generateCertificate_def)

lemma isl_generateCertificate: "isl (generateCertificate env sd) \<longleftrightarrow> isl (render env sd)"
  by (cases "render env sd") (simp_all add: generateCertificate_def)

subsection \<open>Where the images go\<close>

lemma image_placements_render:
  assumes "render env sd = Inr b"
  shows "\<exists>tb doc p ps.
           readFile env (templatePath env) = Inr tb
         \<and> PDFDocument_load env tb = Inr doc
         \<and> pages doc = p # ps
         \<and> image_placements b
              = concat (map (\<lambda>op. case op of DrawText t opts \<Rightarrow> [] | DrawImage img opts \<Rightarrow> [opts])
                          (content p))
                @ [\<lparr>image_x = page_width p - 80 - 20, image_y = page_height p - 80 - 20,
                    image_width = 80, image_height = 80\<rparr>]"
proof -
  from render_Inr [OF assms] obtain tb doc p ps name cid where
    tb: "readFile env (templatePath env) = Inr tb"
    and doc: "PDFDocument_load env tb = Inr doc"
    and p: "pages doc = p # ps"
    and pg: "pages (serialized b)
          = p\<lparr>content := content p @ [name_line p name, completion_line env p sd,
                                        date_line env p sd, qr_stamp p cid]\<rparr> # ps"
    by blast
  have "image_placements b
          = concat (map (\<lambda>op. case op of DrawText t opts \<Rightarrow> [] | DrawImage img opts \<Rightarrow> [opts])
                          (content p))
                @ [\<lparr>image_x = page_width p - 80 - 20, image_y = page_height p - 80 - 20,
                    image_width = 80, image_height = 80\<rparr>]"
    by (simp add: image_placements_def pg name_line_def completion_line_def date_line_def qr_stamp_def)
  with tb doc p show ?thesis
    by blast
qed

subsection \<open>The time of the save\<close>

lemma Date_parse_save_fields:
  "Date_parse (env\<lparr>save_time := t, save_length := len\<rparr>) s = Date_parse env s"
  by (simp add: Date_parse_def split: option.splits prod.splits)

lemma new_Date_save_fields:
  "new_Date (env\<lparr>save_time := t, save_length := len\<rparr>) v = new_Date env v"
  by (cases v) (simp_all add: Date_parse_save_fields)

lemma getters_save_fields:
  "getDate (env\<lparr>save_time := t, save_length := len\<rparr>) tv = getDate env tv"
  "getMonth (env\<lparr>save_time := t, save_length := len\<rparr>) tv = getMonth env tv"
  "getFullYear (env\<lparr>save_time := t, save_length := len\<rparr>) tv = getFullYear env tv"
  by (cases tv; simp add: getDate_def getMonth_def getFullYear_def LocalTime_def)+

lemma formatDate_save_fields:
  "formatDate (env\<lparr>save_time := t, save_length := len\<rparr>) v = formatDate env v"
  by (simp add: formatDate_def getters_save_fields new_Date_save_fields)

lemma ToString_save_fields:
  "ToString (env\<lparr>save_time := t, save_length := len\<rparr>) v = ToString env v"
  by (cases v) simp_all

lemma render_again:
  assumes "render env sd = Inr b"
  shows "render (env\<lparr>save_time := t, save_length := len\<rparr>) sd
           = Inr (b\<lparr>written_at := t, bytes_length := len (serialized b) t\<rparr>)"
  using assms
  apply (simp add: render_def bind_err_Inr first_page_Inr embedFont_Inr draw_name_Inr drawText_Inr
      embedPng_Inr save_Inr Let_def drawImage_def generateQRCode_Inr formatDate_save_fields
      ToString_save_fields)
  apply (elim exE conjE)
  apply (simp add: on_first_page_pages on_first_page_rest)
  done

subsection \<open>Invalid dates\<close>

lemma formatDate_NaN: "new_Date env v = None \<Longrightarrow> formatDate env v = ''NaN undefined NaN''"
  by (simp add: formatDate_def getDate_def getMonth_def getFullYear_def months_at_def show_number_def)

lemma undated_render: "\<exists>b. render undated_env undated_row = Inr b"
  by (simp add: render_def bind_err_def undated_env_def undated_row_def sample_defs first_page_def
      embedFont_def draw_name_def drawText_def generateQRCode_def QRCode_toBuffer_def embedPng_def
      save_def Let_def)

lemma undated_end_date: "formatDate undated_env (Str ''2025-04-15'') = ''15 April 2025''"
  by code_simp

subsection \<open>The start of the name line\<close>

text \<open>
  For every name, the name line starts at the middle of the page minus 12 times the
  length of the name, so that its start plus half of an estimated width of 12 per
  character is 6 times the length of the name left of the middle.
\<close>

lemma name_line_drift:
  assumes "generateCertificate env sd = Inr b"
  shows "\<exists>name opts p ps before after.
           sd ''preferred_name'' = Str name
         \<and> pages (serialized b) = p # ps
         \<and> content p = before @ DrawText name opts # after
         \<and> text_x opts = page_width p / 2 - 12 * real (length name)
         \<and> visual_center opts name 12 = page_width p / 2 - 6 * real (length name)"
proof -
  from assms have "render env sd = Inr b"
    by (simp add: generateCertificate_Inr)
  from render_Inr [OF this] obtain p ps name cid where
    name: "sd ''preferred_name'' = Str name"
    and pg: "pages (serialized b)
          = p\<lparr>content := content p @ [name_line p name, completion_line env p sd,
                                        date_line env p sd, qr_stamp p cid]\<rparr> # ps"
    by blast
  let ?q = "p\<lparr>content := content p @ [name_line p name, completion_line env p sd,
                                        date_line env p sd, qr_stamp p cid]\<rparr>"
  let ?opts = "\<lparr>text_x = page_width p / 2 - real (length name * 12),
        text_y = page_height p / 2 + 50, text_size = 24, text_font = HelveticaBold,
        text_color = rgb 0 0 0\<rparr>"
  have c: "content ?q = content p @ DrawText name ?opts # [completion_line env p sd, date_line env p sd, qr_stamp p cid]"
    by (simp add: name_line_def)
  have x: "text_x ?opts = page_width ?q / 2 - 12 * real (length name)"
    by simp
  have v12: "visual_center ?opts name 12 = page_width ?q / 2 - 6 * real (length name)"
    by (simp add: visual_center_def)
  from name pg c x v12 show ?thesis
    by blast
qed

section \<open>Properties of the request route\<close>

text \<open>
  A number of \<open>10\<^sup>2\<^sup>1\<close> is printed as \<open>1e+21\<close>, of which \<open>parseInt\<close> reads the
  digit before the exponent.
\<close>

lemma parseInt_exponential:
  "parseInt sample_request_env (Num 1000000000000000000000) = Some 1"
  "parseInt sample_request_env (Num 3) = Some 3"
  by code_simp+

lemma certificate_ids_written_append:
  "certificate_ids_written (xs @ ys) = certificate_ids_written xs @ certificate_ids_written ys"
  by (induction xs rule: certificate_ids_written.induct) simp_all

lemma after_update_sent: "snd (after_update env req_body endIso sent r4) = sent"
  by (simp add: after_update_def split: option.splits sum.splits)

lemma after_lookups_keeps:
  assumes "data (supabase env (existing_query (req_body ''phone_number''))) = Some existing"
    and "truthy (existing ''certificate_id'')"
    and "certificate_ids_written sent = []"
  shows "set (certificate_ids_written (snd (after_lookups env req_body courses companies sent)))
           \<subseteq> {Val (existing ''certificate_id'')}"
  using assms
  by (simp add: after_lookups_def Let_def after_update_sent certificate_ids_written_append
      existing_query_def split: sum.splits)

text \<open>
  When the lookup of the student returns no row, which is also what it returns when it
  fails, the identifier written is a newly generated one.
\<close>

lemma after_lookups_generates:
  assumes "data (supabase env (existing_query (req_body ''phone_number''))) = None"
    and "certificate_ids_written sent = []"
  shows "set (certificate_ids_written (snd (after_lookups env req_body courses companies sent)))
           \<subseteq> {Val (Str (generateCertificateId (random env)))}"
  using assms
  by (simp add: after_lookups_def Let_def after_update_sent certificate_ids_written_append
      existing_query_def split: sum.splits)

lemma sample_request_run:
  "status (fst (post_request sample_request_env sample_body)) = 200"
  "certificate_ids_written (snd (post_request sample_request_env sample_body))
     = [Val (Str ''OLDID123'')]"
  by code_simp+

lemma sample_generated_id: "generateCertificateId (random sample_request_env) = ''AAAAAAAA''"
  by code_simp

text \<open>
  When the lookup of the student returns a row with an identifier, every update the
  handler sends writes that identifier.
\<close>

lemma existing_identifier_kept:
  assumes "data (supabase env (existing_query (req_body ''phone_number''))) = Some existing"
    and "truthy (existing ''certificate_id'')"
  shows "set (certificate_ids_written (snd (post_request env req_body)))
           \<subseteq> {Val (existing ''certificate_id'')}"
proof -
  have "certificate_ids_written
          [courses_query (req_body ''course_name''), companies_query (req_body ''company_name'')] = []"
    by (simp add: courses_query_def companies_query_def)
  from after_lookups_keeps [where env = env and req_body = req_body and existing = existing,
      OF assms this]
  show ?thesis
    by (simp add: post_request_def Let_def courses_query_def companies_query_def
        split: option.splits)
qed

lemma existing_identifier_kept_sample:
  "data (supabase sample_request_env (existing_query (Str ''8184930950''))) = Some registered_row
   \<and> truthy (registered_row ''certificate_id'')
   \<and> registered_row ''certificate_id'' = Str ''OLDID123''
   \<and> status (fst (post_request sample_request_env sample_body)) = 200
   \<and> certificate_ids_written (snd (post_request sample_request_env sample_body)) \<noteq> []
   \<and> set (certificate_ids_written (snd (post_request sample_request_env sample_body)))
        \<subseteq> {Val (Str ''OLDID123'')}
   \<and> generateCertificateId (random sample_request_env) = ''AAAAAAAA''"
proof -
  have phone: "sample_body ''phone_number'' = Str ''8184930950''"
    by (simp add: sample_body_def)
  have found: "data (supabase sample_request_env (existing_query (sample_body ''phone_number'')))
      = Some registered_row"
    by (simp add: sample_request_env_def existing_query_def)
  have id: "registered_row ''certificate_id'' = Str ''OLDID123''"
    by (simp add: registered_row_def)
  then have stored: "truthy (registered_row ''certificate_id'')"
    by simp
  from existing_identifier_kept [of sample_request_env sample_body registered_row, OF found stored]
    found stored id sample_request_run
    sample_generated_id
  show ?thesis
    by (simp add: phone)
qed

section \<open>The claims\<close>

subsection \<open>C1: the identifier in the QR code, in the result and in the store\<close>

text \<open>
  C1, as stated, asks that the identifier encoded in the QR image, the \<open>certificateId\<close> of
  the result and the key under which the bytes are stored be one and the same string. In
  the sample run the result carries the identifier \<open>ABCD1234\<close>, while the update that
  stores the bytes selects its row by \<open>student_id = 1\<close>.
\<close>

theorem persistence_key_differs:
  "map_sum message result_certificateId (fst (generateAndSaveCertificate sample_env (Num 1)))
     = Inr (Str ''ABCD1234'')
   \<and> persist_keys (snd (generateAndSaveCertificate sample_env (Num 1))) = [Num 1]
   \<and> Num 1 \<noteq> Str ''ABCD1234''"
proof -
  obtain b where b: "generateCertificate sample_env sample_row = Inr b"
    using sample_generate by blast
  show ?thesis
    by (simp add: generateAndSaveCertificate_def sample_fetch sample_store sample_required b Let_def)
       (simp add: sample_row_def store_query_def fetch_query_def)
qed

text \<open>
  C1, amended: whenever \<open>generateAndSaveCertificate\<close> succeeds, the QR image drawn last
  on the first page encodes the \<open>certificate_id\<close> of the row fetched for \<open>studentId\<close>,
  the result returns that same identifier, and the bytes are stored by one update whose
  filter is \<open>student_id = studentId\<close>, the key the row was fetched with.
\<close>

theorem identifier_links:
  assumes "generateAndSaveCertificate env studentId = (Inr r, qs)"
  shows "\<exists>student b cid p ps ops pos.
           data (supabase env (fetch_query studentId)) = Some student
         \<and> student ''certificate_id'' = Str cid
         \<and> generateCertificate env student = Inr b
         \<and> pages (serialized b) = p # ps
         \<and> content p = ops @ [DrawImage (qr_image cid) pos]
         \<and> qr_payload (qr_image cid) = cid
         \<and> result_certificateId r = Str cid
         \<and> qs = [fetch_query studentId, store_query studentId b]
         \<and> persist_keys qs = [studentId]"
proof -
  from generateAndSaveCertificate_Inr [OF assms] obtain student b where
    fetched: "supabase env (fetch_query studentId) = \<lparr>data = Some student, error = None\<rparr>"
    and gen: "generateCertificate env student = Inr b"
    and r: "result_certificateId r = student ''certificate_id''"
    and qs: "qs = [fetch_query studentId, store_query studentId b]"
    by auto
  from gen have "render env student = Inr b"
    by (simp add: generateCertificate_Inr)
  from render_Inr [OF this] obtain p ps name cid where
    cid: "student ''certificate_id'' = Str cid"
    and pg: "pages (serialized b)
          = p\<lparr>content := content p @ [name_line p name, completion_line env p student,
                                        date_line env p student, qr_stamp p cid]\<rparr> # ps"
    by blast
  let ?q = "p\<lparr>content := content p @ [name_line p name, completion_line env p student,
                                        date_line env p student, qr_stamp p cid]\<rparr>"
  let ?pos = "\<lparr>image_x = page_width p - 80 - 20, image_y = page_height p - 80 - 20,
               image_width = 80, image_height = 80\<rparr>"
  have c: "content ?q = (content p @ [name_line p name, completion_line env p student, date_line env p student])
          @ [DrawImage (qr_image cid) ?pos]"
    by (simp add: qr_stamp_def)
  have d: "data (supabase env (fetch_query studentId)) = Some student"
    by (simp add: fetched)
  have k: "persist_keys qs = [studentId]"
    by (simp add: qs fetch_query_def store_query_def)
  have pl: "qr_payload (qr_image cid) = cid"
    by (simp add: qr_image_def)
  from d cid gen pg c pl r qs k show ?thesis
    by (intro exI [of _ student] exI [of _ b] exI [of _ cid] exI [of _ ?q] exI [of _ ps]
        exI [of _ "content p @ [name_line p name, completion_line env p student, date_line env p student]"]
        exI [of _ ?pos]) simp
qed

theorem identifier_links_witness:
  "\<exists>r qs student b cid p ps ops pos.
       generateAndSaveCertificate sample_env (Num 1) = (Inr r, qs)
     \<and> data (supabase sample_env (fetch_query (Num 1))) = Some student
     \<and> student ''certificate_id'' = Str cid
     \<and> generateCertificate sample_env student = Inr b
     \<and> pages (serialized b) = p # ps
     \<and> content p = ops @ [DrawImage (qr_image cid) pos]
     \<and> qr_payload (qr_image cid) = cid
     \<and> result_certificateId r = Str cid
     \<and> qs = [fetch_query (Num 1), store_query (Num 1) b]
     \<and> persist_keys qs = [Num 1]"
proof -
  obtain b where b: "generateCertificate sample_env sample_row = Inr b"
    using sample_generate by blast
  have "\<exists>r qs. generateAndSaveCertificate sample_env (Num 1) = (Inr r, qs)"
    by (simp add: generateAndSaveCertificate_def sample_fetch sample_store sample_required b Let_def)
  then obtain r qs where run: "generateAndSaveCertificate sample_env (Num 1) = (Inr r, qs)"
    by blast
  from identifier_links [OF run] run show ?thesis
    by blast
qed

subsection \<open>C2: formatDate and the time zone\<close>

text \<open>
  A date-only string is parsed as midnight UTC, and the day, month and year are then read
  in local time. In UTC the two dates of the spec come out as the spec has them.
\<close>

lemma formatDate_utc:
  "formatDate sample_env (Str ''2025-01-15'') = ''15 January 2025''
   \<and> formatDate sample_env (Str ''2025-12-01'') = ''1 December 2025''"
  by code_simp

text \<open>
  C2: in a process five hours west of UTC, \<open>formatDate\<close> gives the day before:
  \<open>2025-01-15\<close> becomes "14 January 2025" and \<open>2025-12-01\<close> becomes "30 November 2025".
\<close>

theorem formatDate_west_of_utc:
  "formatDate west_env (Str ''2025-01-15'') = ''14 January 2025''
   \<and> formatDate west_env (Str ''2025-12-01'') = ''30 November 2025''"
  by code_simp

subsection \<open>C3: the QR payload\<close>

text \<open>
  C3: when \<open>generateCertificate\<close> returns bytes, the image it has drawn last on the first
  page is the QR image that \<open>generateQRCode\<close> made of the row's \<open>certificate_id\<close>, and the
  text that image encodes is exactly that identifier.
\<close>

theorem qr_round_trip:
  assumes "generateCertificate env studentData = Inr pdfBytes"
  shows "\<exists>img pos p ps ops.
           generateQRCode env (studentData ''certificate_id'') = Inr img
         \<and> pages (serialized pdfBytes) = p # ps
         \<and> content p = ops @ [DrawImage img pos]
         \<and> Str (qr_payload img) = studentData ''certificate_id''"
proof -
  from assms have "render env studentData = Inr pdfBytes"
    by (simp add: generateCertificate_Inr)
  from render_Inr [OF this] obtain p ps name cid where
    cid: "studentData ''certificate_id'' = Str cid"
    and qr: "generateQRCode env (studentData ''certificate_id'') = Inr (qr_image cid)"
    and pg: "pages (serialized pdfBytes)
          = p\<lparr>content := content p @ [name_line p name, completion_line env p studentData,
                                        date_line env p studentData, qr_stamp p cid]\<rparr> # ps"
    by blast
  have "content (p\<lparr>content := content p @ [name_line p name, completion_line env p studentData,
                                        date_line env p studentData, qr_stamp p cid]\<rparr>)
        = (content p @ [name_line p name, completion_line env p studentData, date_line env p studentData])
          @ [DrawImage (qr_image cid)
              \<lparr>image_x = page_width p - 80 - 20, image_y = page_height p - 80 - 20,
               image_width = 80, image_height = 80\<rparr>]"
    by (simp add: qr_stamp_def)
  with cid qr pg show ?thesis
    by (metis qr_image_def qr_payload.simps)
qed

theorem qr_round_trip_witness:
  "\<exists>pdfBytes img pos p ps ops.
       generateCertificate sample_env sample_row = Inr pdfBytes
     \<and> generateQRCode sample_env (Str ''ABCD1234'') = Inr img
     \<and> pages (serialized pdfBytes) = p # ps
     \<and> content p = ops @ [DrawImage img pos]
     \<and> qr_payload img = ''ABCD1234''"
proof -
  obtain b where b: "generateCertificate sample_env sample_row = Inr b"
    using sample_generate by blast
  have cid: "sample_row ''certificate_id'' = Str ''ABCD1234''"
    by (simp add: sample_row_def)
  from qr_round_trip [OF b] b show ?thesis
    unfolding cid by auto
qed

subsection \<open>C4: a missing required field\<close>

text \<open>
  C4: when the fetched row lacks a required field (the field is absent, null or the empty
  string), \<open>generateAndSaveCertificate\<close> fails with the error that lists the missing
  fields, among them that field; the only request sent to the data store is the fetch, no
  bytes are stored, and the outcome is the same whatever the file system and the PDF and
  QR libraries would have done.
\<close>

theorem missing_field_rejected:
  assumes "supabase env (fetch_query studentId) = \<lparr>data = Some student, error = None\<rparr>"
    and "field \<in> set requiredFields"
    and "student field = Undefined \<or> student field = Null \<or> student field = Str []"
  shows "generateAndSaveCertificate env studentId
           = (Inl (Error (''Missing required fields: ''
                          @ join '', '' (filter (\<lambda>f. \<not> truthy (student f)) requiredFields))),
              [fetch_query studentId])
         \<and> field \<in> set (filter (\<lambda>f. \<not> truthy (student f)) requiredFields)
         \<and> persist_keys (snd (generateAndSaveCertificate env studentId)) = []
         \<and> (\<forall>env'. supabase env' = supabase env \<longrightarrow>
               generateAndSaveCertificate env' studentId = generateAndSaveCertificate env studentId)"
proof -
  from assms(3) have falsy: "\<not> truthy (student field)"
    by auto
  with assms(2) have mem: "field \<in> set (filter (\<lambda>f. \<not> truthy (student f)) requiredFields)"
    by simp
  have ne: "filter (\<lambda>f. \<not> truthy (student f)) requiredFields \<noteq> []"
    by (metis mem empty_iff empty_set)
  have run: "\<And>e. supabase e = supabase env \<Longrightarrow> generateAndSaveCertificate e studentId
           = (Inl (Error (''Missing required fields: ''
                          @ join '', '' (filter (\<lambda>f. \<not> truthy (student f)) requiredFields))),
              [fetch_query studentId])"
    using ne by (simp add: generateAndSaveCertificate_def assms(1) Let_def)
  have "persist_keys [fetch_query studentId] = []"
    by (simp add: fetch_query_def)
  with run [of env] run mem show ?thesis
    by simp
qed

theorem missing_field_rejected_witness:
  "generateAndSaveCertificate incomplete_env (Num 1)
     = (Inl (Error ''Missing required fields: company_name''), [fetch_query (Num 1)])
   \<and> persist_keys (snd (generateAndSaveCertificate incomplete_env (Num 1))) = []"
proof -
  have fetched: "supabase incomplete_env (fetch_query (Num 1)) = \<lparr>data = Some incomplete_row, error = None\<rparr>"
    by (simp add: incomplete_env_def sample_env_def fetch_query_def)
  have field: "''company_name'' \<in> set requiredFields"
    by (simp add: requiredFields_def)
  have empty: "incomplete_row ''company_name'' = Undefined \<or> incomplete_row ''company_name'' = Null
      \<or> incomplete_row ''company_name'' = Str []"
    by (simp add: incomplete_row_def)
  have missing: "filter (\<lambda>f. \<not> truthy (incomplete_row f)) requiredFields = [''company_name'']"
    by (simp add: requiredFields_def incomplete_row_def sample_row_def)
  from missing_field_rejected [OF fetched field empty] show ?thesis
    by (simp add: missing fetch_query_def)
qed

subsection \<open>C5: centring the recipient name\<close>

text \<open>
  C5: the name line is to be centred, its start plus half of its estimated width (the
  number of characters times the constant of its size, 12) near the middle of the page.
  The code subtracts the whole estimated width from the middle, not half of it, so the
  visual centre lies 6 points left of the middle for every character of the name. On a
  page 842 points wide it is 12 points off for a name of two characters and 240 points
  off for one of forty, which starts at \<open>-59\<close>, left of the page.
\<close>

theorem name_centre_drifts:
  "draw_name sample_env sample_template (Str ''Al'') 842 595 HelveticaBold
     = Inr (on_first_page sample_template (DrawText ''Al'' short_name_options))
   \<and> draw_name sample_env sample_template (Str long_name) 842 595 HelveticaBold
     = Inr (on_first_page sample_template (DrawText long_name long_name_options))
   \<and> visual_center short_name_options ''Al'' 12 = 842 / 2 - 12
   \<and> visual_center long_name_options long_name 12 = 842 / 2 - 240
   \<and> text_x long_name_options = - 59"
  by (simp add: draw_name_def drawText_def sample_env_def text_ok_def long_name_def
      short_name_options_def long_name_options_def visual_center_def)

subsection \<open>C6: all or nothing\<close>

text \<open>
  C6: if the template cannot be read or loaded, a font cannot be embedded, the QR code
  cannot be made or its image cannot be embedded, \<open>generateCertificate\<close> returns an error;
  every error it returns is the wrapped error of the step that failed; and bytes it
  returns are those of a document whose serialisation did not fail and whose first page
  carries the template's content followed by the name line, the completion line, the date
  line and the QR image, with both fonts and the image embedded.
\<close>

theorem render_all_or_nothing:
  "(isl (readFile env (templatePath env)) \<longrightarrow> isl (generateCertificate env sd))
   \<and> (\<forall>tb. readFile env (templatePath env) = Inr tb \<and> isl (PDFDocument_load env tb)
          \<longrightarrow> isl (generateCertificate env sd))
   \<and> (embedFont_error env Helvetica \<noteq> None \<or> embedFont_error env HelveticaBold \<noteq> None
          \<longrightarrow> isl (generateCertificate env sd))
   \<and> (isl (generateQRCode env (sd ''certificate_id'')) \<longrightarrow> isl (generateCertificate env sd))
   \<and> (\<forall>img. generateQRCode env (sd ''certificate_id'') = Inr img \<and> embedPng_error env img \<noteq> None
          \<longrightarrow> isl (generateCertificate env sd))
   \<and> (\<forall>e. generateCertificate env sd = Inl e
          \<longrightarrow> (\<exists>cause. e = Error (''Certificate generation failed: '' @ cause)))
   \<and> (\<forall>b. generateCertificate env sd = Inr b
          \<longrightarrow> save_error env (serialized b) = None
            \<and> (\<exists>tb doc p ps name cid.
                  readFile env (templatePath env) = Inr tb
                \<and> PDFDocument_load env tb = Inr doc
                \<and> pages doc = p # ps
                \<and> pages (serialized b)
                     = p\<lparr>content := content p @ [name_line p name, completion_line env p sd,
                                                   date_line env p sd, qr_stamp p cid]\<rparr> # ps
                \<and> fonts (serialized b) = fonts doc @ [Helvetica, HelveticaBold]
                \<and> images (serialized b) = images doc @ [qr_image cid]))"
proof (intro conjI allI impI)
  assume "isl (readFile env (templatePath env))"
  then show "isl (generateCertificate env sd)"
    by (simp add: isl_generateCertificate render_Inl_steps)
next
  fix tb
  assume "readFile env (templatePath env) = Inr tb \<and> isl (PDFDocument_load env tb)"
  then show "isl (generateCertificate env sd)"
    by (simp add: isl_generateCertificate render_Inl_steps)
next
  assume font: "embedFont_error env Helvetica \<noteq> None \<or> embedFont_error env HelveticaBold \<noteq> None"
  show "isl (generateCertificate env sd)"
  proof (rule ccontr)
    assume "\<not> isl (generateCertificate env sd)"
    then obtain b where "render env sd = Inr b"
      by (rule not_isl_generateCertificate)
    from render_Inr [OF this] font show False
      by blast
  qed
next
  assume qr: "isl (generateQRCode env (sd ''certificate_id''))"
  show "isl (generateCertificate env sd)"
  proof (rule ccontr)
    assume "\<not> isl (generateCertificate env sd)"
    then obtain b where "render env sd = Inr b"
      by (rule not_isl_generateCertificate)
    from render_Inr [OF this] obtain cid where
      "generateQRCode env (sd ''certificate_id'') = Inr (qr_image cid)"
      by blast
    with qr show False
      by simp
  qed
next
  fix img
  assume png: "generateQRCode env (sd ''certificate_id'') = Inr img \<and> embedPng_error env img \<noteq> None"
  show "isl (generateCertificate env sd)"
  proof (rule ccontr)
    assume "\<not> isl (generateCertificate env sd)"
    then obtain b where "render env sd = Inr b"
      by (rule not_isl_generateCertificate)
    from render_Inr [OF this] obtain cid where
      "generateQRCode env (sd ''certificate_id'') = Inr (qr_image cid)"
      and "embedPng_error env (qr_image cid) = None"
      by blast
    with png show False
      by simp
  qed
next
  fix e
  assume "generateCertificate env sd = Inl e"
  then show "\<exists>cause. e = Error (''Certificate generation failed: '' @ cause)"
    by (auto simp: generateCertificate_Inl)
next
  fix b
  assume "generateCertificate env sd = Inr b"
  then have "render env sd = Inr b"
    by (simp add: generateCertificate_Inr)
  from render_Inr [OF this] show "save_error env (serialized b) = None"
    by blast
next
  fix b
  assume "generateCertificate env sd = Inr b"
  then have "render env sd = Inr b"
    by (simp add: generateCertificate_Inr)
  from render_Inr [OF this] show "\<exists>tb doc p ps name cid.
                  readFile env (templatePath env) = Inr tb
                \<and> PDFDocument_load env tb = Inr doc
                \<and> pages doc = p # ps
                \<and> pages (serialized b)
                     = p\<lparr>content := content p @ [name_line p name, completion_line env p sd,
                                                   date_line env p sd, qr_stamp p cid]\<rparr> # ps
                \<and> fonts (serialized b) = fonts doc @ [Helvetica, HelveticaBold]
                \<and> images (serialized b) = images doc @ [qr_image cid]"
    by blast
qed

theorem render_all_or_nothing_witness:
  "isl (readFile broken_env (templatePath broken_env))
   \<and> isl (generateCertificate broken_env sample_row)
   \<and> (\<exists>b name cid.
         generateCertificate sample_env sample_row = Inr b
       \<and> save_error sample_env (serialized b) = None
       \<and> serialized b
            = \<lparr>pages = [\<lparr>page_width = 842, page_height = 595,
                         content = [name_line \<lparr>page_width = 842, page_height = 595, content = []\<rparr> name,
                                    completion_line sample_env \<lparr>page_width = 842, page_height = 595, content = []\<rparr> sample_row,
                                    date_line sample_env \<lparr>page_width = 842, page_height = 595, content = []\<rparr> sample_row,
                                    qr_stamp \<lparr>page_width = 842, page_height = 595, content = []\<rparr> cid]\<rparr>],
               fonts = [Helvetica, HelveticaBold], images = [qr_image cid]\<rparr>)"
proof -
  have broken: "isl (readFile broken_env (templatePath broken_env))"
    by (simp add: broken_env_def sample_env_def sample_readFile_def)
  obtain b where b: "generateCertificate sample_env sample_row = Inr b"
    using sample_generate by blast
  have tpl: "readFile sample_env (templatePath sample_env) = Inr [37, 80, 68, 70]"
    "\<And>tb. PDFDocument_load sample_env tb = Inr sample_template"
    by (simp_all add: sample_env_def sample_readFile_def load_sample_def)
  from render_all_or_nothing [of broken_env sample_row] broken
  have abort: "isl (generateCertificate broken_env sample_row)"
    by blast
  from render_all_or_nothing [of sample_env sample_row] b
  have "save_error sample_env (serialized b) = None
            \<and> (\<exists>tb doc p ps name cid.
                  readFile sample_env (templatePath sample_env) = Inr tb
                \<and> PDFDocument_load sample_env tb = Inr doc
                \<and> pages doc = p # ps
                \<and> pages (serialized b)
                     = p\<lparr>content := content p @ [name_line p name, completion_line sample_env p sample_row,
                                                   date_line sample_env p sample_row, qr_stamp p cid]\<rparr> # ps
                \<and> fonts (serialized b) = fonts doc @ [Helvetica, HelveticaBold]
                \<and> images (serialized b) = images doc @ [qr_image cid])"
    by blast
  then obtain name cid where
    "save_error sample_env (serialized b) = None"
    "pages (serialized b) = [\<lparr>page_width = 842, page_height = 595,
                         content = [name_line \<lparr>page_width = 842, page_height = 595, content = []\<rparr> name,
                                    completion_line sample_env \<lparr>page_width = 842, page_height = 595, content = []\<rparr> sample_row,
                                    date_line sample_env \<lparr>page_width = 842, page_height = 595, content = []\<rparr> sample_row,
                                    qr_stamp \<lparr>page_width = 842, page_height = 595, content = []\<rparr> cid]\<rparr>]"
    "fonts (serialized b) = [Helvetica, HelveticaBold]"
    "images (serialized b) = [qr_image cid]"
    by (auto simp: tpl sample_template_def)
  then have "save_error sample_env (serialized b) = None
       \<and> serialized b
            = \<lparr>pages = [\<lparr>page_width = 842, page_height = 595,
                         content = [name_line \<lparr>page_width = 842, page_height = 595, content = []\<rparr> name,
                                    completion_line sample_env \<lparr>page_width = 842, page_height = 595, content = []\<rparr> sample_row,
                                    date_line sample_env \<lparr>page_width = 842, page_height = 595, content = []\<rparr> sample_row,
                                    qr_stamp \<lparr>page_width = 842, page_height = 595, content = []\<rparr> cid]\<rparr>],
               fonts = [Helvetica, HelveticaBold], images = [qr_image cid]\<rparr>"
    by (cases "serialized b") simp
  with broken abort b show ?thesis
    by blast
qed

subsection \<open>C7: the place of the QR image\<close>

text \<open>
  C7: when \<open>generateCertificate\<close> returns bytes, the last operation on the first page
  draws the QR image (a PNG 150 wide with a quiet zone of 1, black on white) as a square
  of 80 by 80 whose lower left corner is 100 left of the right edge and 100 below the top
  edge of the template's first page, that is 20 from both edges; and every other row
  rendered in the same environment has its images at the same placements.
\<close>

theorem qr_placement_fixed:
  assumes "generateCertificate env sd = Inr b"
  shows "\<exists>tb doc p ps cid ops.
           readFile env (templatePath env) = Inr tb
         \<and> PDFDocument_load env tb = Inr doc
         \<and> pages doc = p # ps
         \<and> pages (serialized b)
              = p\<lparr>content := ops @
                    [DrawImage
                       (QRCodePng cid \<lparr>qr_type = ''png'', qr_width = 150, qr_margin = 1,
                                       color_dark = ''#000000'', color_light = ''#FFFFFF''\<rparr>)
                       \<lparr>image_x = page_width p - 80 - 20, image_y = page_height p - 80 - 20,
                        image_width = 80, image_height = 80\<rparr>]\<rparr> # ps
         \<and> (\<forall>sd' b'. generateCertificate env sd' = Inr b'
                \<longrightarrow> image_placements b' = image_placements b)"
proof -
  from assms have r: "render env sd = Inr b"
    by (simp add: generateCertificate_Inr)
  from render_Inr [OF r] obtain tb doc p ps name cid where
    tb: "readFile env (templatePath env) = Inr tb"
    and doc: "PDFDocument_load env tb = Inr doc"
    and p: "pages doc = p # ps"
    and pg: "pages (serialized b)
          = p\<lparr>content := content p @ [name_line p name, completion_line env p sd,
                                        date_line env p sd, qr_stamp p cid]\<rparr> # ps"
    by blast
  have pg': "pages (serialized b)
              = p\<lparr>content := (content p @ [name_line p name, completion_line env p sd, date_line env p sd]) @
                    [DrawImage
                       (QRCodePng cid \<lparr>qr_type = ''png'', qr_width = 150, qr_margin = 1,
                                       color_dark = ''#000000'', color_light = ''#FFFFFF''\<rparr>)
                       \<lparr>image_x = page_width p - 80 - 20, image_y = page_height p - 80 - 20,
                        image_width = 80, image_height = 80\<rparr>]\<rparr> # ps"
    by (simp add: pg qr_stamp_def qr_image_def)
  have same: "image_placements b' = image_placements b" if "generateCertificate env sd' = Inr b'" for sd' b'
  proof -
    from that have "render env sd' = Inr b'"
      by (simp add: generateCertificate_Inr)
    from image_placements_render [OF this] image_placements_render [OF r] show ?thesis
      by auto
  qed
  from tb doc p pg' same show ?thesis
    by blast
qed

theorem qr_placement_fixed_witness:
  "\<exists>b cid ops.
       generateCertificate sample_env sample_row = Inr b
     \<and> pages (serialized b)
          = [\<lparr>page_width = 842, page_height = 595,
              content = ops @
                [DrawImage
                   (QRCodePng cid \<lparr>qr_type = ''png'', qr_width = 150, qr_margin = 1,
                                   color_dark = ''#000000'', color_light = ''#FFFFFF''\<rparr>)
                   \<lparr>image_x = 742, image_y = 495, image_width = 80, image_height = 80\<rparr>]\<rparr>]
     \<and> image_placements b = image_placements b"
proof -
  obtain b where b: "generateCertificate sample_env sample_row = Inr b"
    using sample_generate by blast
  have tpl: "readFile sample_env (templatePath sample_env) = Inr [37, 80, 68, 70]"
    "\<And>tb. PDFDocument_load sample_env tb = Inr sample_template"
    by (simp_all add: sample_env_def sample_readFile_def load_sample_def)
  from qr_placement_fixed [OF b] obtain cid ops where
    "pages (serialized b)
          = [\<lparr>page_width = 842, page_height = 595,
              content = ops @
                [DrawImage
                   (QRCodePng cid \<lparr>qr_type = ''png'', qr_width = 150, qr_margin = 1,
                                   color_dark = ''#000000'', color_light = ''#FFFFFF''\<rparr>)
                   \<lparr>image_x = 742, image_y = 495, image_width = 80, image_height = 80\<rparr>]\<rparr>]"
    and "\<forall>sd' b'. generateCertificate sample_env sd' = Inr b' \<longrightarrow> image_placements b' = image_placements b"
    by (auto simp: tpl sample_template_def)
  with b show ?thesis
    by blast
qed

subsection \<open>C8: the identifier of a recipient who has one\<close>

text \<open>
  C8: a recipient who has an identifier stored is to keep it. The handler reads only the
  row of its lookup of the student, not the lookup's error, so a lookup that fails looks
  like a student without an identifier. For the registered student of the sample, whose
  stored identifier is \<open>OLDID123\<close>, a request whose lookup fails is answered 200 and
  writes the newly generated identifier \<open>AAAAAAAA\<close> over it.
\<close>

theorem failed_lookup_replaces_identifier:
  "data (request_db (existing_query (Str ''8184930950''))) = Some registered_row
   \<and> registered_row ''certificate_id'' = Str ''OLDID123''
   \<and> supabase flaky_env (existing_query (Str ''8184930950''))
        = \<lparr>data = None, error = Some (Error ''fetch failed'')\<rparr>
   \<and> status (fst (post_request flaky_env sample_body)) = 200
   \<and> certificate_ids_written (snd (post_request flaky_env sample_body))
        = [Val (Str ''AAAAAAAA'')]"
proof -
  have stored: "data (request_db (existing_query (Str ''8184930950''))) = Some registered_row"
    "registered_row ''certificate_id'' = Str ''OLDID123''"
    by (simp_all add: existing_query_def registered_row_def)
  have failed: "supabase flaky_env (existing_query (Str ''8184930950''))
        = \<lparr>data = None, error = Some (Error ''fetch failed'')\<rparr>"
    by (simp add: flaky_env_def sample_request_env_def existing_query_def)
  have run: "status (fst (post_request flaky_env sample_body)) = 200"
    "certificate_ids_written (snd (post_request flaky_env sample_body))
        = [Val (Str ''AAAAAAAA'')]"
    by code_simp+
  from stored failed run show ?thesis
    by simp
qed

theorem failed_lookup_replaces_identifier_witness:
  "truthy (sample_body ''phone_number'') \<and> truthy (sample_body ''internship_start_date'')
   \<and> truthy (sample_body ''internship_duration'') \<and> truthy (sample_body ''course_name'')
   \<and> truthy (sample_body ''company_name'') \<and> truthy (sample_body ''preferred_name'')
   \<and> registered_row ''certificate_id'' = Str ''OLDID123''
   \<and> status (fst (post_request flaky_env sample_body)) = 200
   \<and> certificate_ids_written (snd (post_request flaky_env sample_body))
        = [Val (Str ''AAAAAAAA'')]"
  using failed_lookup_replaces_identifier by (simp add: sample_body_def)

subsection \<open>C9: rendering twice\<close>

text \<open>
  C9: when a render returns bytes, a second render of the same row, at another time and
  with another byte count from the encoder, returns bytes too; both serialise the same
  document, so they have the same number of pages and the same QR image, which encodes
  the row's \<open>certificate_id\<close>; only the time written and the byte count differ.
\<close>

theorem render_twice_agrees:
  assumes "generateCertificate env sd = Inr first"
  shows "\<exists>second cid p ps ops pos.
           generateCertificate (env\<lparr>save_time := t, save_length := len\<rparr>) sd = Inr second
         \<and> length (pages (serialized second)) = length (pages (serialized first))
         \<and> serialized second = serialized first
         \<and> written_at second = t
         \<and> bytes_length second = len (serialized first) t
         \<and> sd ''certificate_id'' = Str cid
         \<and> pages (serialized first) = p # ps
         \<and> content p = ops @ [DrawImage (qr_image cid) pos]
         \<and> qr_payload (qr_image cid) = cid"
proof -
  from assms have r: "render env sd = Inr first"
    by (simp add: generateCertificate_Inr)
  let ?second = "first\<lparr>written_at := t, bytes_length := len (serialized first) t\<rparr>"
  from render_again [OF r] have again:
    "generateCertificate (env\<lparr>save_time := t, save_length := len\<rparr>) sd = Inr ?second"
    by (simp add: generateCertificate_Inr)
  from render_Inr [OF r] obtain p ps name cid where
    cid: "sd ''certificate_id'' = Str cid"
    and pg: "pages (serialized first)
          = p\<lparr>content := content p @ [name_line p name, completion_line env p sd,
                                        date_line env p sd, qr_stamp p cid]\<rparr> # ps"
    by blast
  let ?q = "p\<lparr>content := content p @ [name_line p name, completion_line env p sd,
                                        date_line env p sd, qr_stamp p cid]\<rparr>"
  let ?pos = "\<lparr>image_x = page_width p - 80 - 20, image_y = page_height p - 80 - 20,
               image_width = 80, image_height = 80\<rparr>"
  have c: "content ?q = (content p @ [name_line p name, completion_line env p sd, date_line env p sd])
          @ [DrawImage (qr_image cid) ?pos]"
    by (simp add: qr_stamp_def)
  have pl: "qr_payload (qr_image cid) = cid"
    by (simp add: qr_image_def)
  have s: "length (pages (serialized ?second)) = length (pages (serialized first))"
    "serialized ?second = serialized first" "written_at ?second = t"
    "bytes_length ?second = len (serialized first) t"
    by simp_all
  from again s cid pg c pl show ?thesis
    by blast
qed

theorem render_twice_agrees_witness:
  "\<exists>first second cid p ps ops pos.
       generateCertificate sample_env sample_row = Inr first
     \<and> generateCertificate (sample_env\<lparr>save_time := 1750000086400, save_length := sample_length\<rparr>)
          sample_row = Inr second
     \<and> length (pages (serialized second)) = length (pages (serialized first))
     \<and> serialized second = serialized first
     \<and> written_at first = 1750000000000
     \<and> written_at second = 1750000086400
     \<and> pages (serialized first) = p # ps
     \<and> content p = ops @ [DrawImage (qr_image ''ABCD1234'') pos]
     \<and> qr_payload (qr_image ''ABCD1234'') = ''ABCD1234''"
proof -
  obtain b where b: "generateCertificate sample_env sample_row = Inr b"
    using sample_generate by blast
  then have "render sample_env sample_row = Inr b"
    by (simp add: generateCertificate_Inr)
  from render_Inr [OF this] have w: "written_at b = 1750000000000"
    by (auto simp: sample_env_def)
  have cid: "sample_row ''certificate_id'' = Str ''ABCD1234''"
    by (simp add: sample_row_def)
  from render_twice_agrees [OF b, where t = 1750000086400 and len = sample_length] b w show ?thesis
    unfolding cid by (metis jsval.inject(3))
qed

subsection \<open>C10: dates that are not dates\<close>

text \<open>
  C10: \<open>formatDate\<close> returns a string for every value; when the value does not parse to a
  date the string is "NaN undefined NaN". A row whose start date does not parse is not
  rejected: its date line reads "held from NaN undefined NaN to ...", and when its six
  required fields are non-empty and the render and the store succeed,
  \<open>generateAndSaveCertificate\<close> succeeds.
\<close>

theorem formatDate_invalid_date:
  "(new_Date env v = None \<longrightarrow> formatDate env v = ''NaN undefined NaN'')
   \<and> (\<forall>b. new_Date env (sd ''internship_start_date'') = None \<and> generateCertificate env sd = Inr b
          \<longrightarrow> (\<exists>p ps ops opts stamp.
                 pages (serialized b) = p # ps
               \<and> content p = ops @ [DrawText (''held from NaN undefined NaN to ''
                                              @ formatDate env (sd ''internship_end_date'') @ ''.'') opts,
                                    stamp]))
   \<and> (\<forall>student b.
          supabase env (fetch_query studentId) = \<lparr>data = Some student, error = None\<rparr>
        \<and> (\<forall>f \<in> set requiredFields. truthy (student f))
        \<and> generateCertificate env student = Inr b
        \<and> error (supabase env (store_query studentId b)) = None
          \<longrightarrow> generateAndSaveCertificate env studentId
                = (Inr \<lparr>result_success = True,
                        result_message = ''Certificate generated and saved successfully'',
                        result_student = student ''preferred_name'',
                        result_certificateId = student ''certificate_id'',
                        result_size = bytes_length b\<rparr>,
                   [fetch_query studentId, store_query studentId b]))"
proof (intro conjI allI impI)
  assume "new_Date env v = None"
  then show "formatDate env v = ''NaN undefined NaN''"
    by (rule formatDate_NaN)
next
  fix b
  assume a: "new_Date env (sd ''internship_start_date'') = None \<and> generateCertificate env sd = Inr b"
  then have nan: "formatDate env (sd ''internship_start_date'') = ''NaN undefined NaN''"
    by (simp add: formatDate_NaN)
  from a have "render env sd = Inr b"
    by (simp add: generateCertificate_Inr)
  from render_Inr [OF this] obtain p ps name cid where
    pg: "pages (serialized b)
          = p\<lparr>content := content p @ [name_line p name, completion_line env p sd,
                                        date_line env p sd, qr_stamp p cid]\<rparr> # ps"
    by blast
  let ?q = "p\<lparr>content := content p @ [name_line p name, completion_line env p sd,
                                        date_line env p sd, qr_stamp p cid]\<rparr>"
  let ?opts = "\<lparr>text_x = page_width p / 2
                 - real (length (''held from '' @ formatDate env (sd ''internship_start_date'')
                     @ '' to '' @ formatDate env (sd ''internship_end_date'') @ ''.'') * 4),
        text_y = page_height p / 2 - 20, text_size = 14, text_font = Helvetica,
        text_color = rgb 0 0 0\<rparr>"
  have "content ?q = (content p @ [name_line p name, completion_line env p sd])
          @ [DrawText (''held from NaN undefined NaN to ''
                       @ formatDate env (sd ''internship_end_date'') @ ''.'') ?opts,
             qr_stamp p cid]"
    by (simp add: date_line_def nan)
  with pg show "\<exists>p ps ops opts stamp.
                 pages (serialized b) = p # ps
               \<and> content p = ops @ [DrawText (''held from NaN undefined NaN to ''
                                              @ formatDate env (sd ''internship_end_date'') @ ''.'') opts,
                                    stamp]"
    by blast
next
  fix student b
  assume a: "supabase env (fetch_query studentId) = \<lparr>data = Some student, error = None\<rparr>
        \<and> (\<forall>f \<in> set requiredFields. truthy (student f))
        \<and> generateCertificate env student = Inr b
        \<and> error (supabase env (store_query studentId b)) = None"
  then have "filter (\<lambda>field. \<not> truthy (student field)) requiredFields = []"
    by (simp add: filter_empty_conv)
  with a show "generateAndSaveCertificate env studentId
                = (Inr \<lparr>result_success = True,
                        result_message = ''Certificate generated and saved successfully'',
                        result_student = student ''preferred_name'',
                        result_certificateId = student ''certificate_id'',
                        result_size = bytes_length b\<rparr>,
                   [fetch_query studentId, store_query studentId b])"
    by (simp add: generateAndSaveCertificate_def Let_def)
qed

theorem formatDate_invalid_date_witness:
  "new_Date undated_env (Str ''next spring'') = None
   \<and> formatDate undated_env (Str ''next spring'') = ''NaN undefined NaN''
   \<and> (\<exists>b p ps ops opts stamp.
         generateCertificate undated_env undated_row = Inr b
       \<and> pages (serialized b) = p # ps
       \<and> content p = ops @ [DrawText ''held from NaN undefined NaN to 15 April 2025.'' opts, stamp]
       \<and> generateAndSaveCertificate undated_env (Num 1)
           = (Inr \<lparr>result_success = True,
                   result_message = ''Certificate generated and saved successfully'',
                   result_student = Str ''Asha Rao'',
                   result_certificateId = Str ''ABCD1234'',
                   result_size = bytes_length b\<rparr>,
              [fetch_query (Num 1), store_query (Num 1) b]))"
proof -
  have unparsed: "new_Date undated_env (Str ''next spring'') = None"
    by (simp add: Date_parse_def parse_iso_date_def undated_env_def sample_env_def no_parse_def)
  obtain b where b: "generateCertificate undated_env undated_row = Inr b"
    using undated_render by (auto simp: generateCertificate_def)
  have fields: "undated_row ''internship_start_date'' = Str ''next spring''"
    "undated_row ''internship_end_date'' = Str ''2025-04-15''"
    "undated_row ''preferred_name'' = Str ''Asha Rao''"
    "undated_row ''certificate_id'' = Str ''ABCD1234''"
    by (simp_all add: undated_row_def sample_row_def)
  have fetched: "supabase undated_env (fetch_query (Num 1)) = \<lparr>data = Some undated_row, error = None\<rparr>"
    by (simp add: undated_env_def sample_env_def fetch_query_def)
  have stored: "error (supabase undated_env (store_query (Num 1) b)) = None"
    by (simp add: undated_env_def sample_env_def store_query_def)
  have required: "\<forall>f \<in> set requiredFields. truthy (undated_row f)"
    by (simp add: requiredFields_def undated_row_def sample_row_def)
  note inst = formatDate_invalid_date [of undated_env "Str ''next spring''" undated_row "Num 1"]
  from inst unparsed have nan: "formatDate undated_env (Str ''next spring'') = ''NaN undefined NaN''"
    by blast
  from inst unparsed b fields(1) have "\<exists>p ps ops opts stamp.
         pages (serialized b) = p # ps
       \<and> content p = ops @ [DrawText (''held from NaN undefined NaN to ''
                                      @ formatDate undated_env (undated_row ''internship_end_date'') @ ''.'') opts,
                            stamp]"
    by simp
  then have drawn: "\<exists>p ps ops opts stamp.
         pages (serialized b) = p # ps
       \<and> content p = ops @ [DrawText ''held from NaN undefined NaN to 15 April 2025.'' opts, stamp]"
    by (simp add: fields undated_end_date)
  from inst fetched required b stored
  have "generateAndSaveCertificate undated_env (Num 1)
           = (Inr \<lparr>result_success = True,
                   result_message = ''Certificate generated and saved successfully'',
                   result_student = undated_row ''preferred_name'',
                   result_certificateId = undated_row ''certificate_id'',
                   result_size = bytes_length b\<rparr>,
              [fetch_query (Num 1), store_query (Num 1) b])"
    by blast
  with unparsed nan b drawn show ?thesis
    unfolding fields by blast
qed

end
